theory Spec2Isabelle
  imports Main "HOL-Library.AList" "HOL-Library.Sublist"
begin

section \<open>Python values and exceptions\<close>

text \<open>
  The exceptions the scraper and the loader can raise.  \<open>ValueError\<close> and \<open>KeyError\<close>
  carry their argument (the message, the missing key).  \<open>InterfaceError\<close> is what the
  \<open>sqlite3\<close> module raises for a parameter it cannot bind (named \<open>ProgrammingError\<close>
  from Python 3.11 on); \<open>IntegrityError\<close> is a violated PRIMARY KEY or NOT NULL
  constraint; \<open>ProgrammingError\<close> is a wrong number of bindings; \<open>TransportError\<close> stands
  for whatever \<open>requests.get\<close> raises.
\<close>

datatype error =
    ValueError string
  | KeyError string
  | IndexError
  | AssertionError
  | InterfaceError
  | IntegrityError
  | ProgrammingError
  | TransportError

text \<open>
  A Python dict is an association list with distinct keys, in insertion order.
  \<open>d[k]\<close> raises \<open>KeyError\<close> on a missing key; \<open>d[k] = v\<close> is \<open>AList.update\<close> (the
  value is replaced in place, a new key goes to the end); \<open>d.update(other)\<close> stores every
  item of \<open>other\<close> in turn.
\<close>

definition keys :: "('k \<times> 'v) list \<Rightarrow> 'k list" where
  "keys d = map fst d"

definition getitem :: "(string \<times> 'v) list \<Rightarrow> string \<Rightarrow> error + 'v" where
  "getitem d k = (case map_of d k of None \<Rightarrow> Inl (KeyError k) | Some v \<Rightarrow> Inr v)"

definition dict_update :: "('k \<times> 'v) list \<Rightarrow> ('k \<times> 'v) list \<Rightarrow> ('k \<times> 'v) list" where
  "dict_update d other = fold (\<lambda>(k, v). AList.update k v) other d"

text \<open>
  Python's \<open>str\<close> methods used by the source.  \<open>s.strip(chars)\<close> removes the leading and
  the trailing characters that are in \<open>chars\<close>; \<open>s.find(sub)\<close> is the lowest index where
  \<open>sub\<close> occurs in \<open>s\<close>, or \<open>-1\<close>; \<open>s.lower()\<close> is taken on ASCII letters.
\<close>

definition startswith :: "string \<Rightarrow> string \<Rightarrow> bool" where
  "startswith s start = (take (length start) s = start)"

definition strip :: "string \<Rightarrow> string \<Rightarrow> string" where
  "strip s chars =
     rev (dropWhile (\<lambda>c. c \<in> set chars) (rev (dropWhile (\<lambda>c. c \<in> set chars) s)))"

fun find_from :: "string \<Rightarrow> string \<Rightarrow> int \<Rightarrow> int" where
  "find_from [] sub i = (if sub = [] then i else - 1)"
| "find_from (c # s) sub i =
     (if startswith (c # s) sub then i else find_from s sub (i + 1))"

definition str_find :: "string \<Rightarrow> string \<Rightarrow> int" where
  "str_find s sub = find_from s sub 0"

definition lower_char :: "char \<Rightarrow> char" where
  "lower_char c =
     (if 65 \<le> (of_char c :: nat) \<and> (of_char c :: nat) \<le> 90
      then char_of ((of_char c :: nat) + 32) else c)"

definition lower :: "string \<Rightarrow> string" where
  "lower s = map lower_char s"

text \<open>
  The value of a key of a form's dict is a string or a list of strings.  Subscripting,
  \<open>len\<close>, \<open>in\<close> and iteration work on both (on a string, by characters and substrings).
\<close>

datatype fval = FStr string | FList "string list"

fun elements :: "fval \<Rightarrow> string list" where
  "elements (FStr s) = map (\<lambda>c. [c]) s"
| "elements (FList xs) = xs"

definition subscript :: "fval \<Rightarrow> nat \<Rightarrow> error + string" where
  "subscript v i = (if i < length (elements v) then Inr (elements v ! i) else Inl IndexError)"

definition len :: "fval \<Rightarrow> nat" where
  "len v = length (elements v)"

fun contains :: "fval \<Rightarrow> string \<Rightarrow> bool" where
  "contains (FStr s) x = (str_find s x \<noteq> - 1)"
| "contains (FList xs) x = (x \<in> set xs)"

definition then_do :: "error + 'a \<Rightarrow> ('a \<Rightarrow> error + 'b) \<Rightarrow> error + 'b" where
  "then_do r f = (case r of Inl e \<Rightarrow> Inl e | Inr x \<Rightarrow> f x)"

section \<open>The documents of the intermediate store\<close>

text \<open>
  A document of the abilities collection, as \<open>__scrape_abilities\<close> writes it, and a
  document of the pokemon collection, as \<open>__scrape_pokemon\<close> writes it.  Each form is a
  dict of its own, since some of its keys come from the page.
\<close>

record ability_doc =
  ability :: string
  description :: string

record pokemon_doc =
  url :: string
  name :: string
  number :: int
  evolutions :: "(string \<times> string list) list list"
  formes :: "(string \<times> fval) list list"

section \<open>The scraper\<close>

text \<open>
  Fetching a page and querying its markup are outside the repository (\<open>requests\<close>,
  \<open>BeautifulSoup\<close>).  A page is modelled by what the queries of the source return on it,
  one field for each query:
  \<^item> \<open>pagination_title\<close>: \<open>contents[0]\<close> and \<open>contents[1].string\<close> of the title found by
    \<open>find(class_="pokedex-pokemon-pagination-title").contents[1]\<close>;
  \<^item> \<open>formes_tag\<close>: \<open>find(id="formes")\<close>, \<open>None\<close> when there is no such tag, else the
    \<open>.string\<close> of each of its \<open>contents[1::2]\<close>;
  \<^item> \<open>profile_images\<close>: the \<open>src\<close> of each \<open>img\<close> under \<open>find(class_="profile-images")\<close>;
  \<^item> \<open>version_descriptions\<close>: for each \<open>find_all(class_="version-descriptions")\<close>, the
    \<open>.string\<close> of each of its \<open>p\<close>;
  \<^item> \<open>dtm_type\<close>: for each \<open>find_all(class_="dtm-type")\<close>, the \<open>.text\<close> of each of its \<open>li\<close>;
  \<^item> \<open>pokemon_ability_info\<close>: for each \<open>find_all(class_="pokemon-ability-info")\<close>, its
    attribute titles (their \<open>.text\<close>) and attribute values (their \<open>.text\<close> and, for each
    \<open>find_all(class_="icon")\<close> below them, the list \<open>attrs["class"]\<close>);
  \<^item> \<open>evolution_profile\<close>: \<open>find(class_="evolution-profile")\<close>, \<open>None\<close> when absent, else
    for each of its \<open>contents[1::2]\<close> the first class and the \<open>contents[0]\<close> of each \<open>h3\<close>;
  \<^item> \<open>pokemon_ability_info_detail\<close>: the \<open>h3\<close> text and \<open>p\<close> text of each element;
  \<^item> \<open>next_href\<close>: the \<open>href\<close> of \<open>find('a', class_="next")\<close>.

  A page on which one of the elements that the source dereferences is missing (a
  \<open>find\<close> that returns \<open>None\<close>, a \<open>.string\<close> that is \<open>None\<close>) is not a value of this type.
  The crawl loop \<open>main\<close> is not modelled.
\<close>

record attribute_value =
  value_text :: string
  value_icons :: "string list list"

record ability_info =
  attribute_titles :: "string list"
  attribute_values :: "attribute_value list"

record page =
  pagination_title :: "string \<times> string"
  formes_tag :: "string list option"
  profile_images :: "string list"
  version_descriptions :: "string list list"
  dtm_type :: "string list list"
  pokemon_ability_info :: "ability_info list"
  evolution_profile :: "(string \<times> string list) list option"
  pokemon_ability_info_detail :: "(string \<times> string) list"
  next_href :: string

text \<open>The string literal \<^verbatim>\<open>" \n"\<close> and \<open>xs[i]\<close> on a list.\<close>

definition space_newline :: string where
  "space_newline = [CHR '' '', CHR 0x0A]"

definition item :: "'a list \<Rightarrow> nat \<Rightarrow> error + 'a" where
  "item xs i = (if i < length xs then Inr (xs ! i) else Inl IndexError)"

definition scrape_name :: "page \<Rightarrow> string" where
  "scrape_name pg = strip (fst (pagination_title pg)) space_newline"

text \<open>
  \<open>int\<close> is Python's: \<open>py_int s\<close> is \<open>None\<close> where \<open>int(s)\<close> raises \<open>ValueError\<close>.
\<close>

definition scrape_number :: "(string \<Rightarrow> int option) \<Rightarrow> page \<Rightarrow> error + int" where
  "scrape_number py_int pg =
     (let s = strip (snd (pagination_title pg)) (space_newline @ ''#'') in
      case py_int s of
        None \<Rightarrow>
          Inl (ValueError (''invalid literal for int() with base 10: '' @ [CHR 0x27] @ s @ [CHR 0x27]))
      | Some n \<Rightarrow> Inr n)"

definition scrape_formes :: "page \<Rightarrow> string list" where
  "scrape_formes pg =
     (case formes_tag pg of
        Some forms \<Rightarrow> map (\<lambda>form. strip form space_newline) forms
      | None \<Rightarrow> [scrape_name pg])"

text \<open>
  The form-keyed extractors pair what they find with the form labels by position:
  \<^verbatim>\<open>
        for image, form in zip(images_tag, formes):
            images[form] = image["src"]
  \<close>
\<close>

definition scrape_images :: "string list \<Rightarrow> page \<Rightarrow> (string \<times> string) list" where
  "scrape_images forms pg =
     fold (\<lambda>(image, form) images. AList.update form image images)
       (zip (profile_images pg) forms) []"

definition scrape_descriptions :: "string list \<Rightarrow> page \<Rightarrow> (string \<times> string list) list" where
  "scrape_descriptions forms pg =
     fold (\<lambda>(two_descriptions, form) descriptions.
             AList.update form (map (\<lambda>d. strip d space_newline) two_descriptions) descriptions)
       (zip (version_descriptions pg) forms) []"

definition scrape_types :: "string list \<Rightarrow> page \<Rightarrow> (string \<times> string list) list" where
  "scrape_types forms pg =
     fold (\<lambda>(form_types, form) types.
             AList.update form (map (\<lambda>t. strip t space_newline) form_types) types)
       (zip (dtm_type pg) forms) []"

text \<open>
  The genders of one form, from the third attribute value:
  \<^verbatim>\<open>
            genders = []
            icons = values[2].find_all(class_="icon")
            if icons: # If they're symbols.
                for icon in icons:
                    if icon.attrs["class"][1].find("female") != -1:
                        genders.append("Female")
                    else:
                        genders.append("Male")
            else: # If they're text.
                genders.append(values[2].text.strip(" \n"))
  \<close>
\<close>

fun icon_genders :: "string list list \<Rightarrow> string list \<Rightarrow> error + string list" where
  "icon_genders [] genders = Inr genders"
| "icon_genders (icon # icons) genders =
     (case item icon 1 of
        Inl e \<Rightarrow> Inl e
      | Inr c \<Rightarrow>
          if str_find c ''female'' \<noteq> - 1
          then icon_genders icons (genders @ [''Female''])
          else icon_genders icons (genders @ [''Male'']))"

definition scrape_genders :: "attribute_value \<Rightarrow> error + string list" where
  "scrape_genders v =
     (if value_icons v \<noteq> [] then icon_genders (value_icons v) []
      else Inr [strip (value_text v) space_newline])"

text \<open>
  The dict \<open>info[form]\<close> of \<open>__scrape_misc_info\<close> for one \<open>pokemon-ability-info\<close> element:
  height and weight, gender, category and, when there are more than four titles and
  values, the abilities.
\<close>

definition scrape_form_info :: "ability_info \<Rightarrow> error + (string \<times> fval) list" where
  "scrape_form_info form_info =
     (let titles = attribute_titles form_info; vals = attribute_values form_info in
      then_do (item vals 0) (\<lambda>v0.
      then_do (item titles 0) (\<lambda>t0.
      then_do (item vals 1) (\<lambda>v1.
      then_do (item titles 1) (\<lambda>t1.
      then_do (item vals 2) (\<lambda>v2.
      then_do (scrape_genders v2) (\<lambda>genders.
      then_do (item titles 2) (\<lambda>t2.
      then_do (item vals 3) (\<lambda>v3.
      then_do (item titles 3) (\<lambda>t3.
        let info = AList.update (lower t3) (FStr (value_text v3))
                  (AList.update (lower t2) (FList genders)
                  (AList.update (lower t1) (FStr (value_text v1))
                  (AList.update (lower t0) (FStr (value_text v0)) [])))
        in if length titles > 4 \<and> length vals > 4 then
             then_do (item titles 4) (\<lambda>t4.
               Inr (AList.update (lower t4)
                      (FList (map (\<lambda>a. strip (value_text a) space_newline) (drop 4 vals)))
                      info))
           else Inr info))))))))))"

fun misc_info_loop ::
  "(ability_info \<times> string) list \<Rightarrow> (string \<times> (string \<times> fval) list) list
     \<Rightarrow> error + (string \<times> (string \<times> fval) list) list" where
  "misc_info_loop [] info = Inr info"
| "misc_info_loop ((form_info, form) # rest) info =
     (case scrape_form_info form_info of
        Inl e \<Rightarrow> Inl e
      | Inr d \<Rightarrow> misc_info_loop rest (AList.update form d info))"

definition scrape_misc_info ::
  "string list \<Rightarrow> page \<Rightarrow> error + (string \<times> (string \<times> fval) list) list" where
  "scrape_misc_info forms pg = misc_info_loop (zip (pokemon_ability_info pg) forms) []"

definition scrape_evolutions :: "page \<Rightarrow> (string \<times> string list) list list" where
  "scrape_evolutions pg =
     (case evolution_profile pg of
        Some spots \<Rightarrow>
          map (\<lambda>(evo_spot, evos). [(evo_spot, map (\<lambda>evo. strip evo space_newline) evos)]) spots
      | None \<Rightarrow> [])"

text \<open>
  \<open>__scrape_abilities\<close>: the first description of each ability name on the page.
\<close>

definition scrape_abilities :: "page \<Rightarrow> ability_doc list" where
  "scrape_abilities pg =
     map (\<lambda>(a, d). \<lparr>ability = a, description = d\<rparr>)
       (fold (\<lambda>(h3, p) abilities.
                let ability_name = strip h3 space_newline in
                if ability_name \<notin> set (keys abilities)
                then AList.update ability_name (strip p space_newline) abilities
                else abilities)
          (pokemon_ability_info_detail pg) [])"

definition scrape_next_pokemon_url :: "page \<Rightarrow> string" where
  "scrape_next_pokemon_url pg = ''https://www.pokemon.com'' @ next_href pg"

text \<open>
  The loop of \<open>__scrape_pokemon\<close> that puts the form-keyed dicts together:
  \<^verbatim>\<open>
        for form in formes:
            form_dict = {}
            form_dict["form"] = form
            form_dict["image"] = images[form]
            form_dict["descriptions"] = descriptions[form]
            form_dict["types"] = types[form]
            form_dict.update(misc_info[form])
            pokemon["formes"].append(form_dict)
  \<close>
\<close>

fun assemble ::
  "string list \<Rightarrow> (string \<times> string) list \<Rightarrow> (string \<times> string list) list
     \<Rightarrow> (string \<times> string list) list \<Rightarrow> (string \<times> (string \<times> fval) list) list
     \<Rightarrow> (string \<times> fval) list list \<Rightarrow> error + (string \<times> fval) list list" where
  "assemble [] images descriptions types misc_info acc = Inr acc"
| "assemble (form # forms) images descriptions types misc_info acc =
     then_do (getitem images form) (\<lambda>image.
     then_do (getitem descriptions form) (\<lambda>ds.
     then_do (getitem types form) (\<lambda>ts.
     then_do (getitem misc_info form) (\<lambda>info.
       assemble forms images descriptions types misc_info
         (acc @ [dict_update
                   (AList.update ''types'' (FList ts)
                   (AList.update ''descriptions'' (FList ds)
                   (AList.update ''image'' (FStr image)
                   (AList.update ''form'' (FStr form) []))))
                   info])))))"

definition scrape_pokemon :: "(string \<Rightarrow> int option) \<Rightarrow> string \<Rightarrow> page \<Rightarrow> error + pokemon_doc" where
  "scrape_pokemon py_int self_url pg =
     then_do (scrape_number py_int pg) (\<lambda>n.
       let forms = scrape_formes pg in
       then_do (scrape_misc_info forms pg) (\<lambda>misc_info.
       then_do (assemble forms (scrape_images forms pg) (scrape_descriptions forms pg)
                  (scrape_types forms pg) misc_info []) (\<lambda>form_dicts.
         Inr \<lparr>url = self_url, name = scrape_name pg, number = n,
              evolutions = scrape_evolutions pg, formes = form_dicts\<rparr>)))"

text \<open>
  \<open>PokedexScraper.__init__\<close>.  \<open>fetch\<close> stands for \<open>requests.get\<close> and the parse of the
  answer (\<open>None\<close>: the request raises); \<open>requested\<close> is the list of the urls fetched so
  far, returned with the url of this call added when the fetch is attempted.
\<close>

record pokedex_scraper =
  scraped_url :: string
  scraped_pokemon :: pokemon_doc
  scraped_abilities :: "ability_doc list"
  next_pokemon_url :: string

definition error_message :: "string \<Rightarrow> string" where
  "error_message pokemon_url =
     ''The PokedexScraper can only scrape pages at '' @ [CHR 0x0A] @
     ''                https://www.pokemon.com/us/pokedex/ + the name of a pokemon. '' @ [CHR 0x0A] @
     ''                The url '' @ [CHR 0x22] @ pokemon_url @ [CHR 0x22] @ '' was passed.''"

definition init ::
  "(string \<Rightarrow> int option) \<Rightarrow> (string \<Rightarrow> page option) \<Rightarrow> string \<Rightarrow> string list
     \<Rightarrow> (error + pokedex_scraper) \<times> string list" where
  "init py_int fetch pokemon_url requested =
     (if \<not> startswith pokemon_url ''https://www.pokemon.com/us/pokedex/''
      then (Inl (ValueError (error_message pokemon_url)), requested)
      else
        (case fetch pokemon_url of
           None \<Rightarrow> (Inl TransportError, requested @ [pokemon_url])
         | Some pg \<Rightarrow>
             (then_do (scrape_pokemon py_int pokemon_url pg) (\<lambda>pokemon.
                Inr \<lparr>scraped_url = pokemon_url, scraped_pokemon = pokemon,
                     scraped_abilities = scrape_abilities pg,
                     next_pokemon_url = scrape_next_pokemon_url pg\<rparr>),
              requested @ [pokemon_url])))"

section \<open>The loader: evolution lines\<close>

text \<open>
  \<open>pkmn['evolutions']\<close> is a list of dicts, each pairing a spot of the evolution line
  with the names in that spot.  \<open>insert_evolutions_table\<close> first merges them:
  \<^verbatim>\<open>
        evos = {}
        for dic in evos_list:
            evos.update(dic)
  \<close>
\<close>

definition combine :: "(string \<times> string list) list list \<Rightarrow> (string \<times> string list) list" where
  "combine evos_list = fold (\<lambda>dic evos. dict_update evos dic) evos_list []"

text \<open>
  A nested loop \<^verbatim>\<open>for x in outer: for y in d[k]: values.append(f x y)\<close>.  The inner
  subscript \<open>d[k]\<close> is evaluated once per round of the outer loop, so a missing key
  raises only when the outer list is not empty.
\<close>

fun nested_append ::
  "'a list \<Rightarrow> error + 'b list \<Rightarrow> ('a \<Rightarrow> 'b \<Rightarrow> 'c) \<Rightarrow> 'c list \<Rightarrow> error + 'c list" where
  "nested_append [] inner f values = Inr values"
| "nested_append (x # xs) inner f values =
     (case inner of
        Inl e \<Rightarrow> Inl e
      | Inr ys \<Rightarrow> nested_append xs inner f (values @ map (f x) ys))"

text \<open>
  The list \<open>values\<close> that \<open>insert_evolutions_table\<close> builds from the merged dict
  (the body of its \<open>if\<close>, up to the \<open>executemany\<close>):
  \<^verbatim>\<open>
        for key in evos.keys():
            assert(key in ['first', 'middle', 'last'])
        if 'middle' in evos.keys():
            for mid_evo in evos['middle']:
                for first_evo in evos['first']:
                    values.append((first_evo, mid_evo))
            for last_evo in evos['last']:
                for mid_evo in evos['middle']:
                    values.append((mid_evo, last_evo))
        elif 'last' in evos.keys():
            for last_evo in evos['last']:
                for first_evo in evos['first']:
                    values.append((first_evo, last_evo))
  \<close>
\<close>

definition evolution_values :: "(string \<times> string list) list \<Rightarrow> error + (string \<times> string) list" where
  "evolution_values evos =
     (if \<not> list_all (\<lambda>key. key \<in> set [''first'', ''middle'', ''last'']) (keys evos)
      then Inl AssertionError
      else if ''middle'' \<in> set (keys evos) then
        (case getitem evos ''middle'' of
           Inl e \<Rightarrow> Inl e
         | Inr middle_evos \<Rightarrow>
             (case nested_append middle_evos (getitem evos ''first'') (\<lambda>mid_evo first_evo. (first_evo, mid_evo)) [] of
                Inl e \<Rightarrow> Inl e
              | Inr values \<Rightarrow>
                  (case getitem evos ''last'' of
                     Inl e \<Rightarrow> Inl e
                   | Inr last_evos \<Rightarrow>
                       nested_append last_evos (getitem evos ''middle'') (\<lambda>last_evo mid_evo. (mid_evo, last_evo)) values)))
      else if ''last'' \<in> set (keys evos) then
        (case getitem evos ''last'' of
           Inl e \<Rightarrow> Inl e
         | Inr last_evos \<Rightarrow>
             nested_append last_evos (getitem evos ''first'') (\<lambda>last_evo first_evo. (first_evo, last_evo)) [])
      else Inr [])"

section \<open>The SQLite database\<close>

text \<open>
  What Python hands to \<open>cur.execute\<close> as a parameter: a string, an integer, \<open>None\<close>, a
  list of strings or a document of the abilities collection (a dict).  The \<open>sqlite3\<close>
  module binds the first three and raises on the others.
\<close>

datatype pyval = PStr string | PInt int | PNone | PList "string list" | PDict ability_doc

datatype sqlval = TEXT string | INTEGER int | NULL

fun bind_parameter :: "pyval \<Rightarrow> error + sqlval" where
  "bind_parameter (PStr s) = Inr (TEXT s)"
| "bind_parameter (PInt i) = Inr (INTEGER i)"
| "bind_parameter PNone = Inr NULL"
| "bind_parameter (PList xs) = Inl InterfaceError"
| "bind_parameter (PDict d) = Inl InterfaceError"

fun bind_parameters :: "pyval list \<Rightarrow> error + sqlval list" where
  "bind_parameters [] = Inr []"
| "bind_parameters (p # ps) =
     (case bind_parameter p of
        Inl e \<Rightarrow> Inl e
      | Inr v \<Rightarrow> (case bind_parameters ps of Inl e \<Rightarrow> Inl e | Inr vs \<Rightarrow> Inr (v # vs)))"

text \<open>
  The schema of \<open>create_sqlite_db\<close>.  In each of the six tables the primary key is a
  prefix of the columns, and every column is NOT NULL but \<open>formes.type_2\<close> (the seventh).
  SQLite does not enforce the FOREIGN KEY clauses unless \<open>PRAGMA foreign_keys\<close> is
  switched on, which the source never does.  The loader binds text to TEXT columns and
  integers to INTEGER columns only, so no conversion by column affinity arises.
\<close>

definition column_count :: "string \<Rightarrow> nat" where
  "column_count t =
     (if t = ''pokemon'' then 2 else if t = ''formes'' then 9
      else if t = ''form_descriptions'' then 3 else if t = ''abilities'' then 2
      else if t = ''form_abilities'' then 3 else 2)"

definition primary_key :: "string \<Rightarrow> sqlval list \<Rightarrow> sqlval list" where
  "primary_key t row =
     (if t = ''pokemon'' then take 1 row else if t = ''formes'' then take 2 row
      else if t = ''form_descriptions'' then take 3 row else if t = ''abilities'' then take 1 row
      else if t = ''form_abilities'' then take 3 row else take 2 row)"

definition not_null :: "string \<Rightarrow> sqlval list \<Rightarrow> sqlval list" where
  "not_null t row = (if t = ''formes'' then take 6 row @ drop 7 row else row)"

text \<open>
  The state behind a cursor: the rows of each table, in insertion order, and the
  statements executed so far (one entry for each \<open>execute\<close> and for each row of an
  \<open>executemany\<close>).  \<open>executed\<close> is a history: no operation reads it.
\<close>

datatype statement = Select string | Insert string

record database =
  rows :: "string \<Rightarrow> sqlval list list"
  executed :: "statement list"

definition create_sqlite_db :: database where
  "create_sqlite_db = \<lparr>rows = (\<lambda>t. []), executed = []\<rparr>"

text \<open>\<open>cur.execute("INSERT INTO t VALUES (?, ..., ?);", values)\<close>\<close>

definition execute_insert :: "string \<Rightarrow> pyval list \<Rightarrow> database \<Rightarrow> (error + unit) \<times> database" where
  "execute_insert t params db =
     (let db1 = db\<lparr>executed := executed db @ [Insert t]\<rparr> in
      if length params \<noteq> column_count t then (Inl ProgrammingError, db1)
      else
        (case bind_parameters params of
           Inl e \<Rightarrow> (Inl e, db1)
         | Inr row \<Rightarrow>
             if NULL \<in> set (not_null t row) then (Inl IntegrityError, db1)
             else if primary_key t row \<in> set (map (primary_key t) (rows db t))
               then (Inl IntegrityError, db1)
             else (Inr (), db1\<lparr>rows := (rows db)(t := rows db t @ [row])\<rparr>)))"

text \<open>
  \<open>cur.execute("SELECT * FROM t WHERE ...;", params)\<close> followed by \<open>cur.fetchall()\<close>:
  the rows that satisfy the WHERE clause \<open>cond\<close> at the bound parameters.
\<close>

definition execute_select ::
  "string \<Rightarrow> (sqlval list \<Rightarrow> sqlval list \<Rightarrow> bool) \<Rightarrow> pyval list \<Rightarrow> database
     \<Rightarrow> (error + sqlval list list) \<times> database" where
  "execute_select t cond params db =
     (let db1 = db\<lparr>executed := executed db @ [Select t]\<rparr> in
      case bind_parameters params of
        Inl e \<Rightarrow> (Inl e, db1)
      | Inr ps \<Rightarrow> (Inr (filter (cond ps) (rows db t)), db1))"

text \<open>
  A \<open>for\<close> loop whose body works on the database: an exception in the body ends the
  loop and keeps what was written before it.  \<open>cur.executemany\<close> is such a loop.
\<close>

fun for_each ::
  "('a \<Rightarrow> database \<Rightarrow> (error + unit) \<times> database) \<Rightarrow> 'a list \<Rightarrow> database
     \<Rightarrow> (error + unit) \<times> database" where
  "for_each body [] db = (Inr (), db)"
| "for_each body (x # xs) db =
     (case body x db of
        (Inl e, db') \<Rightarrow> (Inl e, db')
      | (Inr u, db') \<Rightarrow> for_each body xs db')"

definition executemany_insert :: "string \<Rightarrow> pyval list list \<Rightarrow> database \<Rightarrow> (error + unit) \<times> database" where
  "executemany_insert t seq_of_params db = for_each (execute_insert t) seq_of_params db"

text \<open>Running one statement after another; an exception skips the rest.\<close>

definition and_then ::
  "(database \<Rightarrow> (error + unit) \<times> database) \<Rightarrow> (database \<Rightarrow> (error + unit) \<times> database)
     \<Rightarrow> database \<Rightarrow> (error + unit) \<times> database" where
  "and_then f g db = (case f db of (Inl e, db') \<Rightarrow> (Inl e, db') | (Inr u, db') \<Rightarrow> g db')"

section \<open>The loader: one table at a time\<close>

fun as_param :: "fval \<Rightarrow> pyval" where
  "as_param (FStr s) = PStr s"
| "as_param (FList xs) = PList xs"

definition insert_pokemon_table :: "pokemon_doc \<Rightarrow> database \<Rightarrow> (error + unit) \<times> database" where
  "insert_pokemon_table pkmn db =
     execute_insert ''pokemon'' [PStr (name pkmn), PInt (number pkmn)] db"

text \<open>
  The tuple \<open>values\<close> of \<open>insert_formes_table\<close> for one form:
  \<^verbatim>\<open>
        type1 = form['types'][0]
        type2 = None if len(form['types']) < 2 else form['types'][1]
        male = 1 if 'Male' in form['gender'] else 0
        female = 1 if 'Female' in form['gender'] else 0
        values = (pkmn['name'], form['form'], form['height'], form['weight'],
                form['category'], type1, type2, male, female)
  \<close>
\<close>

definition formes_values :: "string \<Rightarrow> (string \<times> fval) list \<Rightarrow> error + pyval list" where
  "formes_values pkmn_name form =
     then_do (getitem form ''types'') (\<lambda>types.
     then_do (subscript types 0) (\<lambda>type1.
     then_do (if len types < 2 then Inr PNone
              else then_do (subscript types 1) (\<lambda>t. Inr (PStr t))) (\<lambda>type2.
     then_do (getitem form ''gender'') (\<lambda>gender.
     then_do (getitem form ''form'') (\<lambda>form_name.
     then_do (getitem form ''height'') (\<lambda>height.
     then_do (getitem form ''weight'') (\<lambda>weight.
     then_do (getitem form ''category'') (\<lambda>category.
       Inr [PStr pkmn_name, as_param form_name, as_param height, as_param weight,
            as_param category, PStr type1, type2,
            PInt (if contains gender ''Male'' then 1 else 0),
            PInt (if contains gender ''Female'' then 1 else 0)]))))))))"

definition insert_formes_table :: "pokemon_doc \<Rightarrow> database \<Rightarrow> (error + unit) \<times> database" where
  "insert_formes_table pkmn db =
     for_each (\<lambda>form db.
        case formes_values (name pkmn) form of
          Inl e \<Rightarrow> (Inl e, db)
        | Inr vs \<Rightarrow> execute_insert ''formes'' vs db) (formes pkmn) db"

text \<open>
  The list \<open>values\<close> of \<open>insert_form_descriptions_table\<close> for one form:
  \<^verbatim>\<open>
        desc1 = form['descriptions'][0]
        values = [(pkmn['name'], form['form'], desc1)]
        # Each form has 2 descriptions.
        # But they might be the same and break the database's unique constraint.
        desc2 = form['descriptions'][1]
        if desc1 != desc2:
            values.append((pkmn['name'], form['form'], desc2))
  \<close>
\<close>

definition form_descriptions_values ::
  "string \<Rightarrow> (string \<times> fval) list \<Rightarrow> error + pyval list list" where
  "form_descriptions_values pkmn_name form =
     then_do (getitem form ''descriptions'') (\<lambda>descriptions.
     then_do (subscript descriptions 0) (\<lambda>desc1.
     then_do (getitem form ''form'') (\<lambda>form_name.
     then_do (subscript descriptions 1) (\<lambda>desc2.
       Inr ([[PStr pkmn_name, as_param form_name, PStr desc1]] @
            (if desc1 \<noteq> desc2 then [[PStr pkmn_name, as_param form_name, PStr desc2]]
             else []))))))"

definition insert_form_descriptions_table ::
  "pokemon_doc \<Rightarrow> database \<Rightarrow> (error + unit) \<times> database" where
  "insert_form_descriptions_table pkmn db =
     for_each (\<lambda>form db.
        case form_descriptions_values (name pkmn) form of
          Inl e \<Rightarrow> (Inl e, db)
        | Inr vs \<Rightarrow> executemany_insert ''form_descriptions'' vs db) (formes pkmn) db"

text \<open>
  \<open>insert_abilities_table\<close>.  The SELECT is given the document \<open>ability\<close> itself as its
  parameter, as the source writes it: \<^verbatim>\<open>cur.execute("SELECT * FROM abilities WHERE ability=?;", (ability,))\<close>
\<close>

definition where_ability :: "sqlval list \<Rightarrow> sqlval list \<Rightarrow> bool" where
  "where_ability ps row = (take 1 ps = take 1 row \<and> ps \<noteq> [] \<and> row \<noteq> [])"

definition insert_abilities_table :: "ability_doc \<Rightarrow> database \<Rightarrow> (error + unit) \<times> database" where
  "insert_abilities_table a db =
     (case execute_select ''abilities'' where_ability [PDict a] db of
        (Inl e, db') \<Rightarrow> (Inl e, db')
      | (Inr fetchall, db') \<Rightarrow>
          if length fetchall = 0
          then execute_insert ''abilities'' [PStr (ability a), PStr (description a)] db'
          else (Inr (), db'))"

text \<open>
  The list \<open>values\<close> of \<open>insert_form_abilities_table\<close>, built over all forms before
  anything is written:
  \<^verbatim>\<open>
    for form in pkmn['formes']:
        if 'abilities' in form.keys(): # One pokemon doesn't have abilities.
            for ability in form['abilities']:
                values.append((pkmn['name'], form['form'], ability))
  \<close>
\<close>

fun append_abilities ::
  "string \<Rightarrow> (string \<times> fval) list \<Rightarrow> string list \<Rightarrow> pyval list list \<Rightarrow> error + pyval list list" where
  "append_abilities pkmn_name form [] vs = Inr vs"
| "append_abilities pkmn_name form (a # as) vs =
     (case getitem form ''form'' of
        Inl e \<Rightarrow> Inl e
      | Inr form_name \<Rightarrow>
          append_abilities pkmn_name form as (vs @ [[PStr pkmn_name, as_param form_name, PStr a]]))"

fun form_abilities_values ::
  "string \<Rightarrow> (string \<times> fval) list list \<Rightarrow> pyval list list \<Rightarrow> error + pyval list list" where
  "form_abilities_values pkmn_name [] vs = Inr vs"
| "form_abilities_values pkmn_name (form # forms) vs =
     (if ''abilities'' \<in> set (keys form) then
        (case getitem form ''abilities'' of
           Inl e \<Rightarrow> Inl e
         | Inr abilities \<Rightarrow>
             (case append_abilities pkmn_name form (elements abilities) vs of
                Inl e \<Rightarrow> Inl e
              | Inr vs' \<Rightarrow> form_abilities_values pkmn_name forms vs'))
      else form_abilities_values pkmn_name forms vs)"

definition insert_form_abilities_table ::
  "pokemon_doc \<Rightarrow> database \<Rightarrow> (error + unit) \<times> database" where
  "insert_form_abilities_table pkmn db =
     (case form_abilities_values (name pkmn) (formes pkmn) [] of
        Inl e \<Rightarrow> (Inl e, db)
      | Inr vs \<Rightarrow> executemany_insert ''form_abilities'' vs db)"

text \<open>
  \<open>insert_evolutions_table\<close>: the evolution line is written only when no row of the
  table mentions this pokemon yet.
  \<^verbatim>\<open>
    cur.execute("SELECT * FROM evolutions WHERE pokemon=? OR evolves_to=?;",
                (pkmn['name'], pkmn['name']))
    if len(cur.fetchall()) == 0:
        ...
        cur.executemany("INSERT INTO evolutions VALUES (?, ?);", values)
  \<close>
\<close>

definition where_pokemon_or_evolves_to :: "sqlval list \<Rightarrow> sqlval list \<Rightarrow> bool" where
  "where_pokemon_or_evolves_to ps row =
     (case (ps, row) of
        ([p1, p2], [pokemon, evolves_to]) \<Rightarrow> pokemon = p1 \<or> evolves_to = p2
      | _ \<Rightarrow> False)"

definition insert_evolutions_table :: "pokemon_doc \<Rightarrow> database \<Rightarrow> (error + unit) \<times> database" where
  "insert_evolutions_table pkmn db =
     (case execute_select ''evolutions'' where_pokemon_or_evolves_to
             [PStr (name pkmn), PStr (name pkmn)] db of
        (Inl e, db') \<Rightarrow> (Inl e, db')
      | (Inr fetchall, db') \<Rightarrow>
          if length fetchall = 0 then
            (case evolution_values (combine (evolutions pkmn)) of
               Inl e \<Rightarrow> (Inl e, db')
             | Inr vs \<Rightarrow>
                 executemany_insert ''evolutions'' (map (\<lambda>(a, b). [PStr a, PStr b]) vs) db')
          else (Inr (), db'))"

text \<open>
  \<open>fill_sqlite_db\<close> of \<open>pokedex_db_converter.py\<close>, on the two collections in the order
  \<open>find()\<close> yields them.  The final \<open>con.commit()\<close> is reached only when no exception
  was raised.  (The earlier script \<open>pokedex_database_converter.py\<close> holds the same schema
  and the first two insert functions, with \<open>insert_form_descriptions_table\<close> still empty;
  it is not modelled.)
  \<^verbatim>\<open>
    for ability in ability_coll.find():
        insert_abilities_table(cur, ability)
    for pkmn in pkmn_coll.find():
        insert_pokemon_table(cur, pkmn)
        insert_formes_table(cur, pkmn)
        insert_form_descriptions_table(cur, pkmn)
        insert_form_abilities_table(cur, pkmn)
        insert_evolutions_table(cur, pkmn)
  \<close>
\<close>

definition insert_pkmn :: "pokemon_doc \<Rightarrow> database \<Rightarrow> (error + unit) \<times> database" where
  "insert_pkmn pkmn =
     and_then (insert_pokemon_table pkmn)
    (and_then (insert_formes_table pkmn)
    (and_then (insert_form_descriptions_table pkmn)
    (and_then (insert_form_abilities_table pkmn)
              (insert_evolutions_table pkmn))))"

definition fill_sqlite_db ::
  "ability_doc list \<Rightarrow> pokemon_doc list \<Rightarrow> database \<Rightarrow> (error + unit) \<times> database" where
  "fill_sqlite_db ability_coll pkmn_coll db =
     and_then (for_each insert_abilities_table ability_coll)
              (for_each insert_pkmn pkmn_coll) db"

section \<open>Properties of the evolution-line values\<close>

lemma nested_append_Inr:
  "nested_append xs (Inr ys) f vs = Inr (vs @ concat (map (\<lambda>x. map (f x) ys) xs))"
  by (induction xs arbitrary: vs) simp_all

lemma nested_append_Inl:
  "nested_append xs (Inl e) f vs = (if xs = [] then Inr vs else Inl e)"
  by (cases xs) simp_all

lemma map_of_keys: "k \<in> set (keys d) \<longleftrightarrow> map_of d k \<noteq> None"
  by (simp add: keys_def map_of_eq_None_iff)

lemma getitem_Some: "map_of d k = Some v \<Longrightarrow> getitem d k = Inr v"
  by (simp add: getitem_def)

lemma getitem_None: "k \<notin> set (keys d) \<Longrightarrow> getitem d k = Inl (KeyError k)"
  by (simp add: getitem_def map_of_keys)

lemma keys_allowed:
  "list_all (\<lambda>key. key \<in> set ks) (keys d) \<longleftrightarrow> set (keys d) \<subseteq> set ks"
  by (auto simp: list_all_iff)

lemma evolution_values_two_stage:
  assumes "set (keys evos) \<subseteq> {''first'', ''middle'', ''last''}"
    and "map_of evos ''first'' = Some fs" and "map_of evos ''middle'' = None"
    and "map_of evos ''last'' = Some ls"
  shows "\<exists>vs. evolution_values evos = Inr vs \<and> set vs = set fs \<times> set ls"
  using assms
  by (auto simp: evolution_values_def map_of_keys getitem_Some nested_append_Inr list_all_iff)

lemma evolution_values_three_stage:
  assumes "set (keys evos) \<subseteq> {''first'', ''middle'', ''last''}"
    and "map_of evos ''first'' = Some fs" and "map_of evos ''middle'' = Some ms"
    and "map_of evos ''last'' = Some ls"
  shows "\<exists>vs. evolution_values evos = Inr vs \<and> set vs = set fs \<times> set ms \<union> set ms \<times> set ls"
  using assms
  by (auto simp: evolution_values_def map_of_keys getitem_Some nested_append_Inr list_all_iff)

lemma evolution_values_no_successor:
  assumes "set (keys evos) \<subseteq> {''first'', ''middle'', ''last''}"
    and "map_of evos ''middle'' = None" and "map_of evos ''last'' = None"
  shows "evolution_values evos = Inr []"
  using assms
  by (auto simp: evolution_values_def map_of_keys list_all_iff)

text \<open>
  C1.  On a merged dict whose keys are among first, middle and last, the values are the
  chained cross-products: without a middle spot, every pair of a first and a last name;
  with a middle spot, every pair of a first and a middle name and every pair of a middle
  and a last name, and nothing else; with a first spot alone, no pair.  In particular
  \<open>{first:[A], last:[B]}\<close> gives \<open>(A,B)\<close>, \<open>{first:[A], middle:[B,C], last:[D]}\<close> gives
  \<open>(A,B), (A,C), (B,D), (C,D)\<close> and \<open>{first:[A,B]}\<close> gives nothing.
\<close>

theorem lineage_edge_set:
  "(set (keys evos) \<subseteq> {''first'', ''middle'', ''last''} \<and> map_of evos ''first'' = Some fs \<and>
      map_of evos ''middle'' = None \<and> map_of evos ''last'' = Some ls \<longrightarrow>
        (\<exists>vs. evolution_values evos = Inr vs \<and> set vs = set fs \<times> set ls)) \<and>
   (set (keys evos) \<subseteq> {''first'', ''middle'', ''last''} \<and> map_of evos ''first'' = Some fs \<and>
      map_of evos ''middle'' = Some ms \<and> map_of evos ''last'' = Some ls \<longrightarrow>
        (\<exists>vs. evolution_values evos = Inr vs \<and> set vs = set fs \<times> set ms \<union> set ms \<times> set ls)) \<and>
   (set (keys evos) \<subseteq> {''first'', ''middle'', ''last''} \<and> map_of evos ''first'' = Some fs \<and>
      map_of evos ''middle'' = None \<and> map_of evos ''last'' = None \<longrightarrow>
        evolution_values evos = Inr []) \<and>
   evolution_values (combine [[(''first'', [A])], [(''last'', [B])]]) = Inr [(A, B)] \<and>
   evolution_values (combine [[(''first'', [A])], [(''middle'', [B, C])], [(''last'', [D])]]) =
     Inr [(A, B), (A, C), (B, D), (C, D)] \<and>
   evolution_values (combine [[(''first'', [A, B])]]) = Inr []"
proof -
  have "evolution_values (combine [[(''first'', [A])], [(''last'', [B])]]) = Inr [(A, B)]"
    by (simp add: evolution_values_def combine_def dict_update_def keys_def getitem_def)
  moreover have "evolution_values (combine [[(''first'', [A])], [(''middle'', [B, C])], [(''last'', [D])]])
      = Inr [(A, B), (A, C), (B, D), (C, D)]"
    by (simp add: evolution_values_def combine_def dict_update_def keys_def getitem_def)
  moreover have "evolution_values (combine [[(''first'', [A, B])]]) = Inr []"
    by (simp add: evolution_values_def combine_def dict_update_def keys_def getitem_def)
  ultimately show ?thesis
    using evolution_values_two_stage [of evos fs ls] evolution_values_three_stage [of evos fs ms ls]
      evolution_values_no_successor [of evos]
    by simp
qed

theorem lineage_edge_set_witness:
  "(\<exists>vs. evolution_values [(''first'', [''Eevee'']), (''last'', [''Vaporeon'', ''Jolteon''])] = Inr vs \<and>
         set vs = set [''Eevee''] \<times> set [''Vaporeon'', ''Jolteon'']) \<and>
   (\<exists>vs. evolution_values [(''first'', [''Oddish'']), (''middle'', [''Gloom'']),
                             (''last'', [''Vileplume'', ''Bellossom''])] = Inr vs \<and>
         set vs = set [''Oddish''] \<times> set [''Gloom''] \<union>
                  set [''Gloom''] \<times> set [''Vileplume'', ''Bellossom'']) \<and>
   evolution_values [(''first'', [''Tauros''])] = Inr []"
  using lineage_edge_set [of "[(''first'', [''Eevee'']), (''last'', [''Vaporeon'', ''Jolteon''])]"
      "[''Eevee'']" "[''Vaporeon'', ''Jolteon'']"]
    lineage_edge_set [of "[(''first'', [''Oddish'']), (''middle'', [''Gloom'']),
        (''last'', [''Vileplume'', ''Bellossom''])]" "[''Oddish'']" "[''Vileplume'', ''Bellossom'']" "[''Gloom'']"]
    lineage_edge_set [of "[(''first'', [''Tauros''])]" "[''Tauros'']"]
  by (simp add: keys_def)

lemma keys_checked:
  "list_all (\<lambda>key. key \<in> set [''first'', ''middle'', ''last'']) (keys evos) \<longleftrightarrow>
     set (keys evos) \<subseteq> {''first'', ''middle'', ''last''}"
  by (auto simp: list_all_iff)

lemma evolution_values_assert:
  assumes "\<not> set (keys evos) \<subseteq> {''first'', ''middle'', ''last''}"
  shows "evolution_values evos = Inl AssertionError"
proof -
  have "\<not> list_all (\<lambda>key. key \<in> set [''first'', ''middle'', ''last'']) (keys evos)"
    using assms by (simp only: keys_checked not_False_eq_True)
  then show ?thesis
    by (simp only: evolution_values_def simp_thms if_True)
qed

lemma evolution_values_middle:
  assumes "set (keys evos) \<subseteq> {''first'', ''middle'', ''last''}"
    and "map_of evos ''middle'' = Some ms"
  shows "evolution_values evos =
     (case nested_append ms (getitem evos ''first'') (\<lambda>mid_evo first_evo. (first_evo, mid_evo)) [] of
        Inl e \<Rightarrow> Inl e
      | Inr vs \<Rightarrow>
          (case getitem evos ''last'' of
             Inl e \<Rightarrow> Inl e
           | Inr last_evos \<Rightarrow>
               nested_append last_evos (Inr ms) (\<lambda>last_evo mid_evo. (mid_evo, last_evo)) vs))"
proof -
  have "list_all (\<lambda>key. key \<in> set [''first'', ''middle'', ''last'']) (keys evos)"
    using assms(1) by (simp only: keys_checked)
  moreover have "''middle'' \<in> set (keys evos)"
    using assms(2) by (simp add: map_of_keys)
  moreover have "getitem evos ''middle'' = Inr ms"
    using assms(2) by (rule getitem_Some)
  ultimately show ?thesis
    unfolding evolution_values_def by (simp cong: sum.case_cong)
qed


lemma middle_without_last:
  assumes "set (keys evos) \<subseteq> {''first'', ''middle'', ''last''}"
    and "''middle'' \<in> set (keys evos)" and "''last'' \<notin> set (keys evos)"
  shows "evolution_values evos = Inl (KeyError ''first'') \<or>
         evolution_values evos = Inl (KeyError ''last'')"
proof -
  obtain ms where ms: "map_of evos ''middle'' = Some ms"
    using assms(2) by (auto simp: map_of_keys)
  note ev = evolution_values_middle [OF assms(1) ms]
  have l: "getitem evos ''last'' = Inl (KeyError ''last'')"
    using assms(3) by (rule getitem_None)
  show ?thesis
  proof (cases "map_of evos ''first''")
    case None
    then have f: "getitem evos ''first'' = Inl (KeyError ''first'')"
      by (simp add: getitem_def)
    show ?thesis
      by (cases "ms = []") (simp_all add: ev f l nested_append_Inl)
  next
    case (Some fs)
    then have f: "getitem evos ''first'' = Inr fs"
      by (rule getitem_Some)
    show ?thesis
      by (simp add: ev f l nested_append_Inr)
  qed
qed

lemma middle_without_first:
  assumes "set (keys evos) \<subseteq> {''first'', ''middle'', ''last''}"
    and "map_of evos ''middle'' = Some ms" and "ms \<noteq> []" and "''first'' \<notin> set (keys evos)"
  shows "evolution_values evos = Inl (KeyError ''first'')"
proof -
  have f: "getitem evos ''first'' = Inl (KeyError ''first'')"
    using assms(4) by (rule getitem_None)
  show ?thesis
    using assms(3) by (simp add: evolution_values_middle [OF assms(1,2)] f nested_append_Inl)
qed

lemma empty_middle_without_first:
  assumes "set (keys evos) \<subseteq> {''first'', ''middle'', ''last''}"
    and "map_of evos ''middle'' = Some []" and "''first'' \<notin> set (keys evos)"
    and "map_of evos ''last'' = Some ls"
  shows "evolution_values evos = Inr []"
proof -
  have l: "getitem evos ''last'' = Inr ls"
    using assms(4) by (rule getitem_Some)
  show ?thesis
    by (simp add: evolution_values_middle [OF assms(1,2)] l nested_append_Inr)
qed


text \<open>
  C6 (as stated, refuted).  A merged dict with an empty middle spot, a last spot and no
  first spot is accepted: no exception is raised and the values are empty.
\<close>

theorem malformed_lineage_counterexample:
  "''middle'' \<in> set (keys (combine [[(''middle'', [])], [(''last'', [''Dustox''])]])) \<and>
   ''first'' \<notin> set (keys (combine [[(''middle'', [])], [(''last'', [''Dustox''])]])) \<and>
   evolution_values (combine [[(''middle'', [])], [(''last'', [''Dustox''])]]) = Inr []"
  by (simp add: evolution_values_def combine_def dict_update_def keys_def getitem_def)

text \<open>
  C6 (amended).  A key other than first, middle and last raises \<open>AssertionError\<close>.  With
  the keys in range, a middle spot without a last spot raises \<open>KeyError\<close>, and a middle
  spot that holds at least one name without a first spot raises \<open>KeyError\<close>; in these
  cases no values are returned.  An empty middle spot together with a last spot raises
  nothing and gives no values, also when there is no first spot.
\<close>

theorem malformed_lineage_errors:
  "(\<not> set (keys evos) \<subseteq> {''first'', ''middle'', ''last''} \<longrightarrow>
      evolution_values evos = Inl AssertionError) \<and>
   (set (keys evos) \<subseteq> {''first'', ''middle'', ''last''} \<and> ''middle'' \<in> set (keys evos) \<and>
      ''last'' \<notin> set (keys evos) \<longrightarrow>
      evolution_values evos = Inl (KeyError ''first'') \<or>
      evolution_values evos = Inl (KeyError ''last'')) \<and>
   (set (keys evos) \<subseteq> {''first'', ''middle'', ''last''} \<and> map_of evos ''middle'' = Some ms \<and>
      ms \<noteq> [] \<and> ''first'' \<notin> set (keys evos) \<longrightarrow>
      evolution_values evos = Inl (KeyError ''first'')) \<and>
   (set (keys evos) \<subseteq> {''first'', ''middle'', ''last''} \<and> map_of evos ''middle'' = Some [] \<and>
      ''first'' \<notin> set (keys evos) \<and> map_of evos ''last'' = Some ls \<longrightarrow>
      evolution_values evos = Inr [])"
  using evolution_values_assert [of evos] middle_without_last [of evos]
    middle_without_first [of evos ms] empty_middle_without_first [of evos ls]
  by blast

theorem malformed_lineage_errors_witness:
  "evolution_values [(''first'', [''Wurmple'']), (''cocoon'', [''Silcoon''])] = Inl AssertionError \<and>
   (evolution_values [(''first'', [''Wurmple'']), (''middle'', [''Silcoon''])] = Inl (KeyError ''first'') \<or>
    evolution_values [(''first'', [''Wurmple'']), (''middle'', [''Silcoon''])] = Inl (KeyError ''last'')) \<and>
   evolution_values [(''middle'', [''Silcoon'']), (''last'', [''Beautifly''])] = Inl (KeyError ''first'') \<and>
   evolution_values [(''middle'', []), (''last'', [''Beautifly''])] = Inr []"
proof -
  have "evolution_values [(''first'', [''Wurmple'']), (''cocoon'', [''Silcoon''])] = Inl AssertionError"
    using malformed_lineage_errors [of "[(''first'', [''Wurmple'']), (''cocoon'', [''Silcoon''])]"]
    by (simp add: keys_def)
  moreover have "evolution_values [(''first'', [''Wurmple'']), (''middle'', [''Silcoon''])] = Inl (KeyError ''first'') \<or>
    evolution_values [(''first'', [''Wurmple'']), (''middle'', [''Silcoon''])] = Inl (KeyError ''last'')"
    using malformed_lineage_errors [of "[(''first'', [''Wurmple'']), (''middle'', [''Silcoon''])]"]
    by (simp add: keys_def)
  moreover have "evolution_values [(''middle'', [''Silcoon'']), (''last'', [''Beautifly''])] = Inl (KeyError ''first'')"
    using malformed_lineage_errors [of "[(''middle'', [''Silcoon'']), (''last'', [''Beautifly''])]" "[''Silcoon'']"]
    by (simp add: keys_def)
  moreover have "evolution_values [(''middle'', []), (''last'', [''Beautifly''])] = Inr []"
    using malformed_lineage_errors [of "[(''middle'', []), (''last'', [''Beautifly''])]" _ "[''Beautifly'']"]
    by (simp add: keys_def)
  ultimately show ?thesis by blast
qed

section \<open>Properties of the loader\<close>

lemma insert_abilities_table_raises:
  "insert_abilities_table a db =
     (Inl InterfaceError, db\<lparr>executed := executed db @ [Select ''abilities'']\<rparr>)"
  by (simp add: insert_abilities_table_def execute_select_def)

text \<open>
  C3 (the code departs from the claim).  The SELECT that looks for the ability is given
  the whole document instead of its name, so it raises before anything is compared or
  inserted: loading a single ability leaves the abilities table empty and ends the load.
\<close>

theorem abilities_never_loaded:
  "fst (fill_sqlite_db [\<lparr>ability = ''Overgrow'', description = ''Powers up Grass-type moves.''\<rparr>] []
          create_sqlite_db) = Inl InterfaceError \<and>
   rows (snd (fill_sqlite_db [\<lparr>ability = ''Overgrow'', description = ''Powers up Grass-type moves.''\<rparr>] []
          create_sqlite_db)) ''abilities'' = []"
  by (simp add: fill_sqlite_db_def and_then_def insert_abilities_table_raises create_sqlite_db_def)

lemma execute_insert_text3:
  assumes "column_count t = 3" and "not_null t = (\<lambda>row. row)" and "primary_key t = take 3"
  shows "execute_insert t [PStr a, PStr b, PStr c] db =
     (if [TEXT a, TEXT b, TEXT c] \<in> set (map (take 3) (rows db t))
      then (Inl IntegrityError, db\<lparr>executed := executed db @ [Insert t]\<rparr>)
      else (Inr (), db\<lparr>executed := executed db @ [Insert t],
                         rows := (rows db)(t := rows db t @ [[TEXT a, TEXT b, TEXT c]])\<rparr>))"
  using assms by (simp add: execute_insert_def Let_def)

lemma form_descriptions_schema:
  "column_count ''form_descriptions'' = 3" "not_null ''form_descriptions'' = (\<lambda>row. row)"
  "primary_key ''form_descriptions'' = take 3"
  by (simp_all add: column_count_def not_null_def primary_key_def fun_eq_iff)

lemma two_descriptions_values:
  assumes "getitem form ''descriptions'' = Inr (FList [d1, d2])"
    and "getitem form ''form'' = Inr (FStr f)"
  shows "form_descriptions_values n form =
     Inr (if d1 = d2 then [[PStr n, PStr f, PStr d1]]
          else [[PStr n, PStr f, PStr d1], [PStr n, PStr f, PStr d2]])"
  using assms by (simp add: form_descriptions_values_def then_do_def subscript_def)


lemma executemany_two_descriptions:
  assumes "getitem form ''descriptions'' = Inr (FList [d1, d2])"
    and "getitem form ''form'' = Inr (FStr f)"
    and "form_descriptions_values n form = Inr vs"
    and "set ((\<lambda>(f, d1, d2). if d1 = d2 then [[TEXT n, TEXT f, TEXT d1]] else [[TEXT n, TEXT f, TEXT d1], [TEXT n, TEXT f, TEXT d2]]) (f, d1, d2)) \<inter> set (map (take 3) (rows db ''form_descriptions'')) = {}"
  shows "\<exists>db'. executemany_insert ''form_descriptions'' vs db = (Inr (), db') \<and>
           rows db' = (rows db)(''form_descriptions'' := rows db ''form_descriptions'' @ (\<lambda>(f, d1, d2). if d1 = d2 then [[TEXT n, TEXT f, TEXT d1]] else [[TEXT n, TEXT f, TEXT d1], [TEXT n, TEXT f, TEXT d2]]) (f, d1, d2))"
proof -
  have vs: "vs = (if d1 = d2 then [[PStr n, PStr f, PStr d1]]
                  else [[PStr n, PStr f, PStr d1], [PStr n, PStr f, PStr d2]])"
    using two_descriptions_values [OF assms(1,2), of n] assms(3) by simp
  show ?thesis
  proof (cases "d1 = d2")
    case True
    then show ?thesis using assms(4)
      by (simp add: vs executemany_insert_def execute_insert_text3 [OF form_descriptions_schema])
  next
    case False
    then show ?thesis using assms(4)
      by (simp add: vs executemany_insert_def execute_insert_text3 [OF form_descriptions_schema])
  qed
qed

lemma for_each_appends:
  assumes "list_all2 (\<lambda>x rs. (\<forall>r \<in> set rs. K r = r) \<and>
              (\<forall>db. set rs \<inter> set (map K (rows db t)) = {} \<longrightarrow>
                 (\<exists>db'. body x db = (Inr (), db') \<and> rows db' = (rows db)(t := rows db t @ rs)))) xs rss"
    and "distinct (concat rss)"
    and "set (concat rss) \<inter> set (map K (rows db t)) = {}"
  shows "\<exists>db'. for_each body xs db = (Inr (), db') \<and> rows db' t = rows db t @ concat rss"
  using assms
proof (induction xs rss arbitrary: db rule: list_all2_induct)
  case Nil
  show ?case by simp
next
  case (Cons x xs rs rss)
  have k: "\<forall>r \<in> set rs. K r = r" using Cons.hyps(1) by blast
  have "set rs \<inter> set (map K (rows db t)) = {}" using Cons.prems(2) by auto
  then obtain db1 where db1: "body x db = (Inr (), db1)" "rows db1 = (rows db)(t := rows db t @ rs)"
    using Cons.hyps(1) by blast
  have k1: "set (map K (rows db1 t)) = set (map K (rows db t)) \<union> set rs"
    using k by (auto simp: db1(2))
  have dr: "distinct (concat rss)" using Cons.prems(1) by simp
  have "set (concat rss) \<inter> set (map K (rows db t)) = {}" using Cons.prems(2) by auto
  moreover have "set (concat rss) \<inter> set rs = {}" using Cons.prems(1) by auto
  ultimately have "set (concat rss) \<inter> set (map K (rows db1 t)) = {}"
    unfolding k1 by blast
  from Cons.IH [OF dr this]
  obtain db' where db': "for_each body xs db1 = (Inr (), db')"
      "rows db' t = rows db1 t @ concat rss"
    by blast
  show ?case
    by (intro exI [of _ db']) (simp add: db1 db')
qed

lemma insert_all_descriptions:
  assumes "list_all2 (\<lambda>form (f, d1, d2). getitem form ''form'' = Inr (FStr f) \<and> getitem form ''descriptions'' = Inr (FList [d1, d2])) forms fds"
    and "distinct (concat (map (\<lambda>(f, d1, d2). if d1 = d2 then [[TEXT n, TEXT f, TEXT d1]] else [[TEXT n, TEXT f, TEXT d1], [TEXT n, TEXT f, TEXT d2]]) fds))"
    and "set (concat (map (\<lambda>(f, d1, d2). if d1 = d2 then [[TEXT n, TEXT f, TEXT d1]] else [[TEXT n, TEXT f, TEXT d1], [TEXT n, TEXT f, TEXT d2]]) fds)) \<inter> set (map (take 3) (rows db ''form_descriptions'')) = {}"
  shows "\<exists>db'. for_each (\<lambda>form db.
             case form_descriptions_values n form of
               Inl e \<Rightarrow> (Inl e, db)
             | Inr vs \<Rightarrow> executemany_insert ''form_descriptions'' vs db) forms db = (Inr (), db') \<and>
           rows db' ''form_descriptions'' = rows db ''form_descriptions'' @ concat (map (\<lambda>(f, d1, d2). if d1 = d2 then [[TEXT n, TEXT f, TEXT d1]] else [[TEXT n, TEXT f, TEXT d1], [TEXT n, TEXT f, TEXT d2]]) fds)"
proof (rule for_each_appends [where K = "take 3" and rss = "map (\<lambda>(f, d1, d2). if d1 = d2 then [[TEXT n, TEXT f, TEXT d1]] else [[TEXT n, TEXT f, TEXT d1], [TEXT n, TEXT f, TEXT d2]]) fds", OF _ assms(2,3)])
  show "list_all2 (\<lambda>x rs. (\<forall>r \<in> set rs. take 3 r = r) \<and>
              (\<forall>db. set rs \<inter> set (map (take 3) (rows db ''form_descriptions'')) = {} \<longrightarrow>
                 (\<exists>db'. (case form_descriptions_values n x of
                           Inl e \<Rightarrow> (Inl e, db)
                         | Inr vs \<Rightarrow> executemany_insert ''form_descriptions'' vs db) = (Inr (), db') \<and>
                    rows db' = (rows db)(''form_descriptions'' := rows db ''form_descriptions'' @ rs))))
          forms (map (\<lambda>(f, d1, d2). if d1 = d2 then [[TEXT n, TEXT f, TEXT d1]] else [[TEXT n, TEXT f, TEXT d1], [TEXT n, TEXT f, TEXT d2]]) fds)"
    unfolding list_all2_map2
  proof (rule list_all2_mono [OF assms(1)])
    fix form fd
    assume t: "(\<lambda>form (f, d1, d2). getitem form ''form'' = Inr (FStr f) \<and> getitem form ''descriptions'' = Inr (FList [d1, d2])) form fd"
    obtain f d1 d2 where fd: "fd = (f, d1, d2)" by (cases fd)
    have g: "getitem form ''descriptions'' = Inr (FList [d1, d2])" "getitem form ''form'' = Inr (FStr f)"
      using t by (simp_all add: fd)
    obtain vs where vs: "form_descriptions_values n form = Inr vs"
      using two_descriptions_values [OF g, of n] by simp
    have "\<forall>r \<in> set ((\<lambda>(f, d1, d2). if d1 = d2 then [[TEXT n, TEXT f, TEXT d1]] else [[TEXT n, TEXT f, TEXT d1], [TEXT n, TEXT f, TEXT d2]]) fd). take 3 r = r"
      by (simp add: fd)
    moreover have "\<exists>db'. (case form_descriptions_values n form of
                           Inl e \<Rightarrow> (Inl e, db)
                         | Inr vs \<Rightarrow> executemany_insert ''form_descriptions'' vs db) = (Inr (), db') \<and>
                    rows db' = (rows db)(''form_descriptions'' := rows db ''form_descriptions'' @ (\<lambda>(f, d1, d2). if d1 = d2 then [[TEXT n, TEXT f, TEXT d1]] else [[TEXT n, TEXT f, TEXT d1], [TEXT n, TEXT f, TEXT d2]]) fd)"
      if "set ((\<lambda>(f, d1, d2). if d1 = d2 then [[TEXT n, TEXT f, TEXT d1]] else [[TEXT n, TEXT f, TEXT d1], [TEXT n, TEXT f, TEXT d2]]) fd) \<inter> set (map (take 3) (rows db ''form_descriptions'')) = {}" for db
      using executemany_two_descriptions [OF g vs, of db] that by (simp add: vs fd)
    ultimately show "(\<forall>r \<in> set ((\<lambda>(f, d1, d2). if d1 = d2 then [[TEXT n, TEXT f, TEXT d1]] else [[TEXT n, TEXT f, TEXT d1], [TEXT n, TEXT f, TEXT d2]]) fd). take 3 r = r) \<and>
              (\<forall>db. set ((\<lambda>(f, d1, d2). if d1 = d2 then [[TEXT n, TEXT f, TEXT d1]] else [[TEXT n, TEXT f, TEXT d1], [TEXT n, TEXT f, TEXT d2]]) fd) \<inter> set (map (take 3) (rows db ''form_descriptions'')) = {} \<longrightarrow>
                 (\<exists>db'. (case form_descriptions_values n form of
                           Inl e \<Rightarrow> (Inl e, db)
                         | Inr vs \<Rightarrow> executemany_insert ''form_descriptions'' vs db) = (Inr (), db') \<and>
                    rows db' = (rows db)(''form_descriptions'' := rows db ''form_descriptions'' @ (\<lambda>(f, d1, d2). if d1 = d2 then [[TEXT n, TEXT f, TEXT d1]] else [[TEXT n, TEXT f, TEXT d1], [TEXT n, TEXT f, TEXT d2]]) fd)))"
      by blast
  qed
qed

text \<open>
  C4 (as stated, refuted).  A form whose description list has length 1 gets no row: the
  subscript \<open>form['descriptions'][1]\<close> raises \<open>IndexError\<close> before anything is written.
\<close>

theorem one_description_counterexample:
  "form_descriptions_values ''Eevee'' [(''form'', FStr ''Eevee''), (''descriptions'', FList [''It can evolve.''])] = Inl IndexError \<and>
   insert_form_descriptions_table
     \<lparr>url = ''https://www.pokemon.com/us/pokedex/eevee'', name = ''Eevee'', number = 133,
      evolutions = [], formes = [[(''form'', FStr ''Eevee''), (''descriptions'', FList [''It can evolve.''])]]\<rparr> create_sqlite_db = (Inl IndexError, create_sqlite_db)"
  by (simp add: insert_form_descriptions_table_def form_descriptions_values_def then_do_def
      subscript_def getitem_def)

text \<open>
  C4 (amended).  For a form with exactly two descriptions, the values hold one row when
  the two are equal and two rows when they differ.  For a pokemon all of whose forms
  are such, when the rows so built are pairwise different and none of them is in the
  table yet, \<open>insert_form_descriptions_table\<close> returns normally and has added exactly
  these rows, form by form: the key (pokemon, form, description) is not violated, also
  when the two descriptions of a form are equal.
\<close>

theorem identical_descriptions_collapse:
  "(getitem form ''descriptions'' = Inr (FList [d1, d2]) \<and> getitem form ''form'' = Inr (FStr f) \<longrightarrow>
      form_descriptions_values n form =
        Inr (if d1 = d2 then [[PStr n, PStr f, PStr d1]]
             else [[PStr n, PStr f, PStr d1], [PStr n, PStr f, PStr d2]])) \<and>
   (name pkmn = n \<and>
    list_all2 (\<lambda>form (f, d1, d2). getitem form ''form'' = Inr (FStr f) \<and>
                  getitem form ''descriptions'' = Inr (FList [d1, d2])) (formes pkmn) fds \<and>
    distinct (concat (map (\<lambda>(f, d1, d2). if d1 = d2 then [[TEXT n, TEXT f, TEXT d1]]
                          else [[TEXT n, TEXT f, TEXT d1], [TEXT n, TEXT f, TEXT d2]]) fds)) \<and>
    set (concat (map (\<lambda>(f, d1, d2). if d1 = d2 then [[TEXT n, TEXT f, TEXT d1]]
                          else [[TEXT n, TEXT f, TEXT d1], [TEXT n, TEXT f, TEXT d2]]) fds)) \<inter>
      set (map (take 3) (rows db ''form_descriptions'')) = {} \<longrightarrow>
      fst (insert_form_descriptions_table pkmn db) = Inr () \<and>
      rows (snd (insert_form_descriptions_table pkmn db)) ''form_descriptions'' =
        rows db ''form_descriptions'' @
        concat (map (\<lambda>(f, d1, d2). if d1 = d2 then [[TEXT n, TEXT f, TEXT d1]]
                          else [[TEXT n, TEXT f, TEXT d1], [TEXT n, TEXT f, TEXT d2]]) fds))"
proof -
  have a: "getitem form ''descriptions'' = Inr (FList [d1, d2]) \<and> getitem form ''form'' = Inr (FStr f) \<longrightarrow>
      form_descriptions_values n form =
        Inr (if d1 = d2 then [[PStr n, PStr f, PStr d1]]
             else [[PStr n, PStr f, PStr d1], [PStr n, PStr f, PStr d2]])"
    using two_descriptions_values [of form d1 d2 f n] by blast
  have b: "name pkmn = n \<and>
    list_all2 (\<lambda>form (f, d1, d2). getitem form ''form'' = Inr (FStr f) \<and>
                  getitem form ''descriptions'' = Inr (FList [d1, d2])) (formes pkmn) fds \<and>
    distinct (concat (map (\<lambda>(f, d1, d2). if d1 = d2 then [[TEXT n, TEXT f, TEXT d1]]
                          else [[TEXT n, TEXT f, TEXT d1], [TEXT n, TEXT f, TEXT d2]]) fds)) \<and>
    set (concat (map (\<lambda>(f, d1, d2). if d1 = d2 then [[TEXT n, TEXT f, TEXT d1]]
                          else [[TEXT n, TEXT f, TEXT d1], [TEXT n, TEXT f, TEXT d2]]) fds)) \<inter>
      set (map (take 3) (rows db ''form_descriptions'')) = {} \<longrightarrow>
      fst (insert_form_descriptions_table pkmn db) = Inr () \<and>
      rows (snd (insert_form_descriptions_table pkmn db)) ''form_descriptions'' =
        rows db ''form_descriptions'' @
        concat (map (\<lambda>(f, d1, d2). if d1 = d2 then [[TEXT n, TEXT f, TEXT d1]]
                          else [[TEXT n, TEXT f, TEXT d1], [TEXT n, TEXT f, TEXT d2]]) fds)"
  proof (rule impI)
    assume h: "name pkmn = n \<and>
      list_all2 (\<lambda>form (f, d1, d2). getitem form ''form'' = Inr (FStr f) \<and>
                  getitem form ''descriptions'' = Inr (FList [d1, d2])) (formes pkmn) fds \<and>
      distinct (concat (map (\<lambda>(f, d1, d2). if d1 = d2 then [[TEXT n, TEXT f, TEXT d1]]
                          else [[TEXT n, TEXT f, TEXT d1], [TEXT n, TEXT f, TEXT d2]]) fds)) \<and>
      set (concat (map (\<lambda>(f, d1, d2). if d1 = d2 then [[TEXT n, TEXT f, TEXT d1]]
                          else [[TEXT n, TEXT f, TEXT d1], [TEXT n, TEXT f, TEXT d2]]) fds)) \<inter>
        set (map (take 3) (rows db ''form_descriptions'')) = {}"
    then obtain db' where "for_each (\<lambda>form db.
               case form_descriptions_values n form of
                 Inl e \<Rightarrow> (Inl e, db)
               | Inr vs \<Rightarrow> executemany_insert ''form_descriptions'' vs db) (formes pkmn) db = (Inr (), db')"
        "rows db' ''form_descriptions'' = rows db ''form_descriptions'' @
           concat (map (\<lambda>(f, d1, d2). if d1 = d2 then [[TEXT n, TEXT f, TEXT d1]]
                          else [[TEXT n, TEXT f, TEXT d1], [TEXT n, TEXT f, TEXT d2]]) fds)"
      using insert_all_descriptions [where n = n and forms = "formes pkmn" and fds = fds and db = db]
      by blast
    then show "fst (insert_form_descriptions_table pkmn db) = Inr () \<and>
        rows (snd (insert_form_descriptions_table pkmn db)) ''form_descriptions'' =
          rows db ''form_descriptions'' @
          concat (map (\<lambda>(f, d1, d2). if d1 = d2 then [[TEXT n, TEXT f, TEXT d1]]
                          else [[TEXT n, TEXT f, TEXT d1], [TEXT n, TEXT f, TEXT d2]]) fds)"
      using h by (simp add: insert_form_descriptions_table_def)
  qed
  show ?thesis by (rule conjI [OF a b])
qed

theorem identical_descriptions_collapse_witness:
  "form_descriptions_values ''Meowth''
     [(''form'', FStr ''Meowth''), (''descriptions'', FList [''It loves coins.'', ''It loves coins.''])] =
     Inr [[PStr ''Meowth'', PStr ''Meowth'', PStr ''It loves coins.'']] \<and>
   fst (insert_form_descriptions_table \<lparr>url = ''https://www.pokemon.com/us/pokedex/meowth'', name = ''Meowth'', number = 52,
        evolutions = [],
        formes = [[(''form'', FStr ''Meowth''),
                   (''descriptions'', FList [''It loves coins.'', ''It loves coins.''])],
                  [(''form'', FStr ''Alolan Meowth''),
                   (''descriptions'', FList [''It is prideful.'', ''It is selfish.''])]]\<rparr> create_sqlite_db) = Inr () \<and>
   rows (snd (insert_form_descriptions_table \<lparr>url = ''https://www.pokemon.com/us/pokedex/meowth'', name = ''Meowth'', number = 52,
        evolutions = [],
        formes = [[(''form'', FStr ''Meowth''),
                   (''descriptions'', FList [''It loves coins.'', ''It loves coins.''])],
                  [(''form'', FStr ''Alolan Meowth''),
                   (''descriptions'', FList [''It is prideful.'', ''It is selfish.''])]]\<rparr> create_sqlite_db)) ''form_descriptions'' =
     [[TEXT ''Meowth'', TEXT ''Meowth'', TEXT ''It loves coins.''],
      [TEXT ''Meowth'', TEXT ''Alolan Meowth'', TEXT ''It is prideful.''],
      [TEXT ''Meowth'', TEXT ''Alolan Meowth'', TEXT ''It is selfish.'']]"
  using identical_descriptions_collapse
      [of "[(''form'', FStr ''Meowth''), (''descriptions'', FList [''It loves coins.'', ''It loves coins.''])]"
        "''It loves coins.''" "''It loves coins.''" "''Meowth''" "''Meowth''"
        "\<lparr>url = ''https://www.pokemon.com/us/pokedex/meowth'', name = ''Meowth'', number = 52,
        evolutions = [],
        formes = [[(''form'', FStr ''Meowth''),
                   (''descriptions'', FList [''It loves coins.'', ''It loves coins.''])],
                  [(''form'', FStr ''Alolan Meowth''),
                   (''descriptions'', FList [''It is prideful.'', ''It is selfish.''])]]\<rparr>" "[(''Meowth'', ''It loves coins.'', ''It loves coins.''), (''Alolan Meowth'', ''It is prideful.'', ''It is selfish.'')]" create_sqlite_db]
  by (simp add: getitem_def create_sqlite_db_def)

text \<open>
  In general, for a form with a single description and a string as label, the subscript
  \<open>form['descriptions'][1]\<close> raises \<open>IndexError\<close> before any row of the form is written.
\<close>

lemma one_description_raises:
  assumes "getitem form ''descriptions'' = Inr (FList [d1])"
    and "getitem form ''form'' = Inr (FStr f)"
  shows "form_descriptions_values n form = Inl IndexError"
  using assms by (simp add: form_descriptions_values_def then_do_def subscript_def)

lemma evolutions_schema:
  "column_count ''evolutions'' = 2" "not_null ''evolutions'' = (\<lambda>row. row)"
  "primary_key ''evolutions'' = take 2"
  by (simp_all add: column_count_def not_null_def primary_key_def fun_eq_iff)

lemma execute_insert_evolutions:
  "execute_insert ''evolutions'' [PStr a, PStr b] db =
     (if [TEXT a, TEXT b] \<in> set (map (take 2) (rows db ''evolutions''))
      then (Inl IntegrityError, db\<lparr>executed := executed db @ [Insert ''evolutions'']\<rparr>)
      else (Inr (), db\<lparr>executed := executed db @ [Insert ''evolutions''],
                         rows := (rows db)(''evolutions'' := rows db ''evolutions'' @ [[TEXT a, TEXT b]])\<rparr>))"
  by (simp add: execute_insert_def Let_def evolutions_schema)

lemma executemany_evolutions_rows:
  "executemany_insert ''evolutions'' (map (\<lambda>(a, b). [PStr a, PStr b]) vs) db = (Inr (), db') \<Longrightarrow>
     rows db' = (rows db)(''evolutions'' := rows db ''evolutions'' @ map (\<lambda>(a, b). [TEXT a, TEXT b]) vs)"
  unfolding executemany_insert_def
proof (induction vs arbitrary: db)
  case Nil
  then show ?case by auto
next
  case (Cons v vs)
  obtain a b where v: "v = (a, b)" by (cases v)
  show ?case
  proof (cases "[TEXT a, TEXT b] \<in> set (map (take 2) (rows db ''evolutions''))")
    case True
    with Cons.prems show ?thesis by (simp add: v execute_insert_evolutions)
  next
    case False
    with Cons.prems have "for_each (execute_insert ''evolutions'') (map (\<lambda>(a, b). [PStr a, PStr b]) vs)
        (db\<lparr>executed := executed db @ [Insert ''evolutions''],
            rows := (rows db)(''evolutions'' := rows db ''evolutions'' @ [[TEXT a, TEXT b]])\<rparr>) = (Inr (), db')"
      by (simp add: v execute_insert_evolutions)
    from Cons.IH [OF this] show ?thesis by (auto simp: v fun_eq_iff)
  qed
qed

lemma select_evolutions:
  "execute_select ''evolutions'' where_pokemon_or_evolves_to [PStr n, PStr n] db =
     (Inr (filter (where_pokemon_or_evolves_to [TEXT n, TEXT n]) (rows db ''evolutions'')),
      db\<lparr>executed := executed db @ [Select ''evolutions'']\<rparr>)"
  by (simp add: execute_select_def)

lemma evolutions_guard:
  assumes "list_ex (where_pokemon_or_evolves_to [TEXT (name pkmn), TEXT (name pkmn)]) (rows db ''evolutions'')"
  shows "insert_evolutions_table pkmn db = (Inr (), db\<lparr>executed := executed db @ [Select ''evolutions'']\<rparr>)"
proof -
  have "filter (where_pokemon_or_evolves_to [TEXT (name pkmn), TEXT (name pkmn)]) (rows db ''evolutions'') \<noteq> []"
    using assms by (simp add: filter_empty_conv list_ex_iff)
  then show ?thesis
    by (simp add: insert_evolutions_table_def select_evolutions)
qed

lemma evolutions_unguarded:
  assumes "\<not> list_ex (where_pokemon_or_evolves_to [TEXT (name pkmn), TEXT (name pkmn)]) (rows db ''evolutions'')"
  shows "insert_evolutions_table pkmn db =
     (case evolution_values (combine (evolutions pkmn)) of
        Inl e \<Rightarrow> (Inl e, db\<lparr>executed := executed db @ [Select ''evolutions'']\<rparr>)
      | Inr vs \<Rightarrow> executemany_insert ''evolutions'' (map (\<lambda>(a, b). [PStr a, PStr b]) vs)
                    (db\<lparr>executed := executed db @ [Select ''evolutions'']\<rparr>))"
proof -
  have "filter (where_pokemon_or_evolves_to [TEXT (name pkmn), TEXT (name pkmn)]) (rows db ''evolutions'') = []"
    using assms by (simp add: filter_empty_conv list_ex_iff)
  then show ?thesis
    by (simp add: insert_evolutions_table_def select_evolutions)
qed

lemma set_swapped_pairs:
  "set (concat (map (\<lambda>x. map (\<lambda>y. (y, x)) ys) xs)) = set ys \<times> set xs"
  by auto

lemma evolution_values_set:
  assumes "evolution_values evos = Inr vs"
  shows "set vs =
     (if ''middle'' \<in> set (keys evos)
      then (case map_of evos ''first'' of None \<Rightarrow> {} | Some fs \<Rightarrow> set fs) \<times>
           (case map_of evos ''middle'' of None \<Rightarrow> {} | Some ms \<Rightarrow> set ms) \<union>
           (case map_of evos ''middle'' of None \<Rightarrow> {} | Some ms \<Rightarrow> set ms) \<times>
           (case map_of evos ''last'' of None \<Rightarrow> {} | Some ls \<Rightarrow> set ls)
      else (case map_of evos ''first'' of None \<Rightarrow> {} | Some fs \<Rightarrow> set fs) \<times>
           (case map_of evos ''last'' of None \<Rightarrow> {} | Some ls \<Rightarrow> set ls))"
proof -
  have ks: "set (keys evos) \<subseteq> {''first'', ''middle'', ''last''}"
    using assms evolution_values_assert [of evos] by auto
  show ?thesis
  proof (cases "map_of evos ''middle''")
    case (Some ms)
    note ev = evolution_values_middle [OF ks Some]
    have mk: "''middle'' \<in> set (keys evos)" using Some by (simp add: map_of_keys)
    show ?thesis
    proof (cases "map_of evos ''first''")
      case None
      then have f: "getitem evos ''first'' = Inl (KeyError ''first'')" by (simp add: getitem_def)
      have "ms = []" using assms by (cases ms) (simp_all add: ev f)
      then have "vs = []" using assms
        by (cases "getitem evos ''last''") (auto simp: ev f nested_append_Inr)
      then show ?thesis using \<open>ms = []\<close>
        by (simp add: mk None Some)
    next
      case fs: (Some fs)
      then have f: "getitem evos ''first'' = Inr fs" by (rule getitem_Some)
      show ?thesis
      proof (cases "map_of evos ''last''")
        case None
        then have "getitem evos ''last'' = Inl (KeyError ''last'')" by (simp add: getitem_def)
        then show ?thesis using assms by (simp add: ev f nested_append_Inr)
      next
        case ls: (Some ls)
        then have "getitem evos ''last'' = Inr ls" by (rule getitem_Some)
        then have "vs = concat (map (\<lambda>x. map (\<lambda>y. (y, x)) fs) ms) @
            concat (map (\<lambda>x. map (\<lambda>y. (y, x)) ms) ls)"
          using assms by (simp add: ev f nested_append_Inr)
        then have "set vs = set fs \<times> set ms \<union> set ms \<times> set ls"
          by (simp only: set_append set_swapped_pairs)
        then show ?thesis
          by (simp add: mk fs Some ls)
      qed
    qed
  next
    case None
    then have mk: "''middle'' \<notin> set (keys evos)" by (simp add: map_of_keys)
    have c: "list_all (\<lambda>key. key \<in> set [''first'', ''middle'', ''last'']) (keys evos)"
      using ks by (simp only: keys_checked)
    have ev: "evolution_values evos =
        (if ''last'' \<in> set (keys evos) then
          (case getitem evos ''last'' of Inl e \<Rightarrow> Inl e
           | Inr last_evos \<Rightarrow> nested_append last_evos (getitem evos ''first'')
               (\<lambda>last_evo first_evo. (first_evo, last_evo)) [])
         else Inr [])"
      using c mk unfolding evolution_values_def by simp
    show ?thesis
    proof (cases "map_of evos ''last''")
      case n: None
      then have "''last'' \<notin> set (keys evos)" by (simp add: map_of_keys)
      then show ?thesis using assms ev mk n by simp
    next
      case (Some ls)
      then have lk: "''last'' \<in> set (keys evos)" by (simp add: map_of_keys)
      have l: "getitem evos ''last'' = Inr ls" using Some by (rule getitem_Some)
      show ?thesis
      proof (cases "map_of evos ''first''")
        case n: None
        then have f: "getitem evos ''first'' = Inl (KeyError ''first'')" by (simp add: getitem_def)
        have "ls = []" using assms by (cases ls) (simp_all add: ev lk l f)
        then show ?thesis using assms ev lk l mk Some n by simp
      next
        case fs: (Some fs)
        then have f: "getitem evos ''first'' = Inr fs" by (rule getitem_Some)
        have "vs = concat (map (\<lambda>x. map (\<lambda>y. (y, x)) fs) ls)"
          using assms by (simp add: ev lk l f nested_append_Inr)
        then have "set vs = set fs \<times> set ls"
          by (simp only: set_swapped_pairs)
        then show ?thesis
          by (simp add: mk fs Some)
      qed
    qed
  qed
qed

lemma member_in_values:
  assumes "evolution_values evos = Inr vs" and "vs \<noteq> []"
    and "map_of evos k = Some ns" and "n \<in> set ns"
  shows "\<exists>a b. (a, b) \<in> set vs \<and> (a = n \<or> b = n)"
proof -
  have ks: "set (keys evos) \<subseteq> {''first'', ''middle'', ''last''}"
    using assms(1) evolution_values_assert [of evos] by auto
  have "k \<in> set (keys evos)" using assms(3) by (simp add: map_of_keys)
  with ks have k: "k = ''first'' \<or> k = ''middle'' \<or> k = ''last''" by auto
  have ne: "set vs \<noteq> {}" using assms(2) by simp
  note s = evolution_values_set [OF assms(1)]
  show ?thesis
  proof (cases "''middle'' \<in> set (keys evos)")
    case True
    then obtain ms where ms: "map_of evos ''middle'' = Some ms" by (auto simp: map_of_keys)
    define F where "F = (case map_of evos ''first'' of None \<Rightarrow> {} | Some fs \<Rightarrow> set fs)"
    define L where "L = (case map_of evos ''last'' of None \<Rightarrow> {} | Some ls \<Rightarrow> set ls)"
    have sv: "set vs = F \<times> set ms \<union> set ms \<times> L"
      using s True ms by (simp add: F_def L_def)
    have "set ms \<noteq> {}" using ne sv by auto
    then obtain m where m: "m \<in> set ms" by (cases ms) auto
    have fl: "F \<noteq> {} \<or> L \<noteq> {}" using ne sv by auto
    consider "n \<in> F" | "n \<in> set ms" | "n \<in> L"
      using k assms(3,4) ms by (auto simp: F_def L_def)
    then show ?thesis
    proof cases
      case 1
      then have "(n, m) \<in> set vs" using sv m by simp
      then show ?thesis by blast
    next
      case 2
      show ?thesis
      proof (cases "F = {}")
        case True
        then obtain l where "l \<in> L" using fl by auto
        then have "(n, l) \<in> set vs" using sv 2 by simp
        then show ?thesis by blast
      next
        case False
        then obtain f where "f \<in> F" by auto
        then have "(f, n) \<in> set vs" using sv 2 by simp
        then show ?thesis by blast
      qed
    next
      case 3
      then have "(m, n) \<in> set vs" using sv m by simp
      then show ?thesis by blast
    qed
  next
    case False
    then have mn: "map_of evos ''middle'' = None" by (simp add: map_of_keys)
    define F where "F = (case map_of evos ''first'' of None \<Rightarrow> {} | Some fs \<Rightarrow> set fs)"
    define L where "L = (case map_of evos ''last'' of None \<Rightarrow> {} | Some ls \<Rightarrow> set ls)"
    have sv: "set vs = F \<times> L" using s False by (simp add: F_def L_def)
    have "F \<noteq> {}" and "L \<noteq> {}" using ne sv by auto
    then obtain f l where fl: "f \<in> F" "l \<in> L" by blast
    consider "n \<in> F" | "n \<in> L"
      using k assms(3,4) mn by (auto simp: F_def L_def)
    then show ?thesis
    proof cases
      case 1
      then have "(n, l) \<in> set vs" using sv fl by simp
      then show ?thesis by blast
    next
      case 2
      then have "(f, n) \<in> set vs" using sv fl by simp
      then show ?thesis by blast
    qed
  qed
qed

lemma for_each_invariant:
  assumes "\<And>x db. P db \<Longrightarrow> P (snd (body x db))" and "P db"
  shows "P (snd (for_each body xs db))"
  using assms(2)
proof (induction xs arbitrary: db)
  case Nil
  then show ?case by simp
next
  case (Cons x xs)
  have "P (snd (body x db))" using assms(1) Cons.prems by blast
  then show ?case using Cons.IH [of "snd (body x db)"]
    by (cases "body x db") (auto split: sum.splits)
qed

lemma execute_insert_distinct:
  assumes "distinct (map (primary_key t) (rows db t))"
  shows "distinct (map (primary_key t) (rows (snd (execute_insert t ps db)) t))"
  using assms by (auto simp: execute_insert_def Let_def split: sum.splits)

lemma insert_evolutions_table_distinct:
  assumes "distinct (map (take 2) (rows db ''evolutions''))"
  shows "distinct (map (take 2) (rows (snd (insert_evolutions_table pkmn db)) ''evolutions''))"
proof (cases "list_ex (where_pokemon_or_evolves_to [TEXT (name pkmn), TEXT (name pkmn)]) (rows db ''evolutions'')")
  case True
  then show ?thesis using assms by (simp add: evolutions_guard)
next
  case False
  define db1 where "db1 = db\<lparr>executed := executed db @ [Select ''evolutions'']\<rparr>"
  have d1: "distinct (map (primary_key ''evolutions'') (rows db1 ''evolutions''))"
    using assms by (simp add: db1_def evolutions_schema)
  have "distinct (map (primary_key ''evolutions'')
      (rows (snd (for_each (execute_insert ''evolutions'') ps db1)) ''evolutions''))" for ps
    by (rule for_each_invariant [where P = "\<lambda>d. distinct (map (primary_key ''evolutions'') (rows d ''evolutions''))"])
      (simp_all add: execute_insert_distinct d1)
  then show ?thesis using False d1
    by (simp add: evolutions_unguarded executemany_insert_def db1_def evolutions_schema
        split: sum.splits)
qed

lemma second_load_noop:
  assumes g: "\<not> list_ex (where_pokemon_or_evolves_to [TEXT (name p1), TEXT (name p1)]) (rows db ''evolutions'')"
    and i: "insert_evolutions_table p1 db = (Inr (), db1)"
    and e: "evolutions p2 = evolutions p1"
    and k: "map_of (combine (evolutions p1)) k = Some ns" and n: "name p2 \<in> set ns"
  shows "fst (insert_evolutions_table p2 db1) = Inr () \<and>
         rows (snd (insert_evolutions_table p2 db1)) = rows db1"
proof -
  obtain vs where vs: "evolution_values (combine (evolutions p1)) = Inr vs"
    using i by (cases "evolution_values (combine (evolutions p1))")
      (simp_all add: evolutions_unguarded [OF g])
  have "executemany_insert ''evolutions'' (map (\<lambda>(a, b). [PStr a, PStr b]) vs)
          (db\<lparr>executed := executed db @ [Select ''evolutions'']\<rparr>) = (Inr (), db1)"
    using i by (simp add: evolutions_unguarded [OF g] vs)
  from executemany_evolutions_rows [OF this]
  have r1: "rows db1 ''evolutions'' = rows db ''evolutions'' @ map (\<lambda>(a, b). [TEXT a, TEXT b]) vs"
    by simp
  show ?thesis
  proof (cases "list_ex (where_pokemon_or_evolves_to [TEXT (name p2), TEXT (name p2)]) (rows db1 ''evolutions'')")
    case True
    then show ?thesis by (simp add: evolutions_guard)
  next
    case False
    have "vs = []"
    proof (rule ccontr)
      assume "vs \<noteq> []"
      from member_in_values [OF vs this k n]
      obtain a b where ab: "(a, b) \<in> set vs" "a = name p2 \<or> b = name p2" by blast
      have "[TEXT a, TEXT b] \<in> set (rows db1 ''evolutions'')"
        using ab(1) by (force simp: r1)
      moreover have "where_pokemon_or_evolves_to [TEXT (name p2), TEXT (name p2)] [TEXT a, TEXT b]"
        using ab(2) by (auto simp: where_pokemon_or_evolves_to_def)
      ultimately show False using False by (auto simp: list_ex_iff)
    qed
    then show ?thesis
      by (simp add: evolutions_unguarded [OF False] e vs executemany_insert_def)
  qed
qed

text \<open>
  C2.  When a row of the evolutions table already mentions the pokemon, as predecessor
  or as successor, \<open>insert_evolutions_table\<close> returns normally and leaves every table as
  it was.  Hence, once one document has written its evolution line, the document of any
  pokemon named in that line, holding the same line, writes nothing more; and no pair
  (pokemon, evolves_to) ever occurs twice in the table.
\<close>

theorem evolution_line_inserted_once:
  "(list_ex (where_pokemon_or_evolves_to [TEXT (name pkmn), TEXT (name pkmn)]) (rows db ''evolutions'') \<longrightarrow>
      fst (insert_evolutions_table pkmn db) = Inr () \<and>
      rows (snd (insert_evolutions_table pkmn db)) = rows db) \<and>
   (\<not> list_ex (where_pokemon_or_evolves_to [TEXT (name p1), TEXT (name p1)]) (rows db ''evolutions'') \<and>
    insert_evolutions_table p1 db = (Inr (), db1) \<and> evolutions p2 = evolutions p1 \<and>
    map_of (combine (evolutions p1)) k = Some ns \<and> name p2 \<in> set ns \<longrightarrow>
      fst (insert_evolutions_table p2 db1) = Inr () \<and>
      rows (snd (insert_evolutions_table p2 db1)) = rows db1) \<and>
   (distinct (map (take 2) (rows db ''evolutions'')) \<longrightarrow>
      distinct (map (take 2) (rows (snd (insert_evolutions_table pkmn db)) ''evolutions'')))"
  using second_load_noop [of p1 db db1 p2 k ns] insert_evolutions_table_distinct [of db pkmn]
  by (simp add: evolutions_guard)

theorem evolution_line_inserted_once_witness:
  "fst (insert_evolutions_table
          \<lparr>url = ''u2'', name = ''Ivysaur'', number = 2,
           evolutions = [[(''first'', [''Bulbasaur''])], [(''middle'', [''Ivysaur''])], [(''last'', [''Venusaur''])]],
           formes = []\<rparr>
          (snd (insert_evolutions_table
                 \<lparr>url = ''u1'', name = ''Bulbasaur'', number = 1,
                  evolutions = [[(''first'', [''Bulbasaur''])], [(''middle'', [''Ivysaur''])], [(''last'', [''Venusaur''])]],
                  formes = []\<rparr> create_sqlite_db))) = Inr () \<and>
   rows (snd (insert_evolutions_table
          \<lparr>url = ''u2'', name = ''Ivysaur'', number = 2,
           evolutions = [[(''first'', [''Bulbasaur''])], [(''middle'', [''Ivysaur''])], [(''last'', [''Venusaur''])]],
           formes = []\<rparr>
          (snd (insert_evolutions_table
                 \<lparr>url = ''u1'', name = ''Bulbasaur'', number = 1,
                  evolutions = [[(''first'', [''Bulbasaur''])], [(''middle'', [''Ivysaur''])], [(''last'', [''Venusaur''])]],
                  formes = []\<rparr> create_sqlite_db)))) ''evolutions'' =
     [[TEXT ''Bulbasaur'', TEXT ''Ivysaur''], [TEXT ''Ivysaur'', TEXT ''Venusaur'']] \<and>
   distinct (map (take 2) (rows (snd (insert_evolutions_table
                 \<lparr>url = ''u1'', name = ''Bulbasaur'', number = 1,
                  evolutions = [[(''first'', [''Bulbasaur''])], [(''middle'', [''Ivysaur''])], [(''last'', [''Venusaur''])]],
                  formes = []\<rparr> create_sqlite_db)) ''evolutions''))"
proof -
  let ?line = "[[(''first'', [''Bulbasaur''])], [(''middle'', [''Ivysaur''])], [(''last'', [''Venusaur''])]]"
  let ?p1 = "\<lparr>url = ''u1'', name = ''Bulbasaur'', number = 1, evolutions = ?line, formes = []\<rparr>"
  let ?p2 = "\<lparr>url = ''u2'', name = ''Ivysaur'', number = 2, evolutions = ?line, formes = []\<rparr>"
  let ?db1 = "\<lparr>rows = (\<lambda>t. [])(''evolutions'' :=
                  [[TEXT ''Bulbasaur'', TEXT ''Ivysaur''], [TEXT ''Ivysaur'', TEXT ''Venusaur'']]),
                executed = [Select ''evolutions'', Insert ''evolutions'', Insert ''evolutions'']\<rparr>"
  have c: "combine ?line = [(''first'', [''Bulbasaur'']), (''middle'', [''Ivysaur'']), (''last'', [''Venusaur''])]"
    by (simp add: combine_def dict_update_def)
  have v: "evolution_values (combine ?line) = Inr [(''Bulbasaur'', ''Ivysaur''), (''Ivysaur'', ''Venusaur'')]"
    by (simp add: c evolution_values_def keys_def getitem_def)
  have g: "\<not> list_ex (where_pokemon_or_evolves_to [TEXT (name ?p1), TEXT (name ?p1)])
             (rows create_sqlite_db ''evolutions'')"
    by (simp add: create_sqlite_db_def)
  have i: "insert_evolutions_table ?p1 create_sqlite_db = (Inr (), ?db1)"
    unfolding evolutions_unguarded [OF g]
    by (simp add: v executemany_insert_def execute_insert_evolutions create_sqlite_db_def)
  have m: "list_ex (where_pokemon_or_evolves_to [TEXT (name ?p2), TEXT (name ?p2)]) (rows ?db1 ''evolutions'')"
    by (simp add: where_pokemon_or_evolves_to_def)
  show ?thesis
    using evolution_line_inserted_once [of ?p2 ?db1]
      evolution_line_inserted_once [of ?p1 create_sqlite_db ?p1 ?db1 ?p2 "''middle''" "[''Ivysaur'']"]
      g i m
    by (simp add: c create_sqlite_db_def)
qed

lemma executed_execute_insert:
  "executed (snd (execute_insert t ps db)) = executed db @ [Insert t]"
  by (simp add: execute_insert_def Let_def split: sum.splits)

lemma executed_execute_select:
  "executed (snd (execute_select t c ps db)) = executed db @ [Select t]"
  by (simp add: execute_select_def Let_def split: sum.splits)

lemma for_each_executed:
  assumes "\<And>x db. \<exists>js. executed (snd (body x db)) = executed db @ js \<and> set js \<subseteq> S"
  shows "\<exists>js. executed (snd (for_each body xs db)) = executed db @ js \<and> set js \<subseteq> S"
proof (induction xs arbitrary: db)
  case Nil
  show ?case by simp
next
  case (Cons x xs)
  obtain r db' where b: "body x db = (r, db')" by (cases "body x db")
  obtain js where js: "executed db' = executed db @ js" "set js \<subseteq> S"
    using assms [of x db] b by auto
  show ?case
  proof (cases r)
    case (Inl e)
    then show ?thesis using b js by auto
  next
    case (Inr u)
    obtain ks where ks: "executed (snd (for_each body xs db')) = executed db' @ ks" "set ks \<subseteq> S"
      using Cons.IH [of db'] by auto
    have "executed (snd (for_each body (x # xs) db)) = executed db @ (js @ ks)"
      using b Inr js ks by simp
    moreover have "set (js @ ks) \<subseteq> S" using js ks by simp
    ultimately show ?thesis by blast
  qed
qed

lemma and_then_executed:
  assumes "\<And>db. \<exists>js. executed (snd (f db)) = executed db @ js \<and> set js \<subseteq> S"
    and "\<And>db. \<exists>js. executed (snd (g db)) = executed db @ js \<and> set js \<subseteq> S"
  shows "\<exists>js. executed (snd (and_then f g db)) = executed db @ js \<and> set js \<subseteq> S"
proof -
  obtain r db' where b: "f db = (r, db')" by (cases "f db")
  obtain js where js: "executed db' = executed db @ js" "set js \<subseteq> S"
    using assms(1) [of db] b by auto
  show ?thesis
  proof (cases r)
    case (Inl e)
    then show ?thesis using b js by (auto simp: and_then_def)
  next
    case (Inr u)
    obtain ks where ks: "executed (snd (g db')) = executed db' @ ks" "set ks \<subseteq> S"
      using assms(2) [of db'] by auto
    have "executed (snd (and_then f g db)) = executed db @ (js @ ks)"
      using b Inr js ks by (simp add: and_then_def)
    moreover have "set (js @ ks) \<subseteq> S" using js ks by simp
    ultimately show ?thesis by blast
  qed
qed

lemma executemany_executed:
  "\<exists>js. executed (snd (executemany_insert t vs db)) = executed db @ js \<and> set js \<subseteq> {Insert t}"
  unfolding executemany_insert_def
  by (rule for_each_executed) (simp add: executed_execute_insert)

lemma weaken_executed:
  assumes "\<exists>js. executed db' = executed db @ js \<and> set js \<subseteq> S" and "S \<subseteq> S'"
  shows "\<exists>js. executed db' = executed db @ js \<and> set js \<subseteq> S'"
  using assms by blast

lemma insert_pokemon_table_executed:
  "\<exists>js. executed (snd (insert_pokemon_table pkmn db)) = executed db @ js \<and> set js \<subseteq> {Insert ''pokemon'', Insert ''formes'', Insert ''form_descriptions'', Insert ''form_abilities'', Select ''evolutions'', Insert ''evolutions''}"
  by (simp add: insert_pokemon_table_def executed_execute_insert)

lemma insert_formes_table_executed:
  "\<exists>js. executed (snd (insert_formes_table pkmn db)) = executed db @ js \<and> set js \<subseteq> {Insert ''pokemon'', Insert ''formes'', Insert ''form_descriptions'', Insert ''form_abilities'', Select ''evolutions'', Insert ''evolutions''}"
  unfolding insert_formes_table_def
proof (rule for_each_executed)
  fix form db
  show "\<exists>js. executed (snd (case formes_values (name pkmn) form of
            Inl e \<Rightarrow> (Inl e, db) | Inr vs \<Rightarrow> execute_insert ''formes'' vs db)) = executed db @ js \<and>
          set js \<subseteq> {Insert ''pokemon'', Insert ''formes'', Insert ''form_descriptions'', Insert ''form_abilities'', Select ''evolutions'', Insert ''evolutions''}"
    by (cases "formes_values (name pkmn) form") (simp_all add: executed_execute_insert)
qed

lemma insert_form_descriptions_table_executed:
  "\<exists>js. executed (snd (insert_form_descriptions_table pkmn db)) = executed db @ js \<and> set js \<subseteq> {Insert ''pokemon'', Insert ''formes'', Insert ''form_descriptions'', Insert ''form_abilities'', Select ''evolutions'', Insert ''evolutions''}"
  unfolding insert_form_descriptions_table_def
proof (rule for_each_executed)
  fix form db
  show "\<exists>js. executed (snd (case form_descriptions_values (name pkmn) form of
            Inl e \<Rightarrow> (Inl e, db) | Inr vs \<Rightarrow> executemany_insert ''form_descriptions'' vs db)) =
            executed db @ js \<and> set js \<subseteq> {Insert ''pokemon'', Insert ''formes'', Insert ''form_descriptions'', Insert ''form_abilities'', Select ''evolutions'', Insert ''evolutions''}"
  proof (cases "form_descriptions_values (name pkmn) form")
    case (Inl e)
    then show ?thesis by simp
  next
    case (Inr vs)
    show ?thesis
      using weaken_executed [OF executemany_executed [of "''form_descriptions''" vs db], of "{Insert ''pokemon'', Insert ''formes'', Insert ''form_descriptions'', Insert ''form_abilities'', Select ''evolutions'', Insert ''evolutions''}"]
      by (simp add: Inr)
  qed
qed

lemma insert_form_abilities_table_executed:
  "\<exists>js. executed (snd (insert_form_abilities_table pkmn db)) = executed db @ js \<and> set js \<subseteq> {Insert ''pokemon'', Insert ''formes'', Insert ''form_descriptions'', Insert ''form_abilities'', Select ''evolutions'', Insert ''evolutions''}"
proof (cases "form_abilities_values (name pkmn) (formes pkmn) []")
  case (Inl e)
  then show ?thesis by (simp add: insert_form_abilities_table_def)
next
  case (Inr vs)
  show ?thesis
    using weaken_executed [OF executemany_executed [of "''form_abilities''" vs db], of "{Insert ''pokemon'', Insert ''formes'', Insert ''form_descriptions'', Insert ''form_abilities'', Select ''evolutions'', Insert ''evolutions''}"]
    by (simp add: insert_form_abilities_table_def Inr)
qed

lemma insert_evolutions_table_executed:
  "\<exists>js. executed (snd (insert_evolutions_table pkmn db)) = executed db @ js \<and> set js \<subseteq> {Insert ''pokemon'', Insert ''formes'', Insert ''form_descriptions'', Insert ''form_abilities'', Select ''evolutions'', Insert ''evolutions''}"
proof (cases "list_ex (where_pokemon_or_evolves_to [TEXT (name pkmn), TEXT (name pkmn)]) (rows db ''evolutions'')")
  case True
  then show ?thesis by (simp add: evolutions_guard)
next
  case False
  show ?thesis
  proof (cases "evolution_values (combine (evolutions pkmn))")
    case (Inl e)
    then show ?thesis by (simp add: evolutions_unguarded [OF False])
  next
    case (Inr vs)
    define db1 where "db1 = db\<lparr>executed := executed db @ [Select ''evolutions'']\<rparr>"
    obtain js where js: "executed (snd (executemany_insert ''evolutions''
          (map (\<lambda>(a, b). [PStr a, PStr b]) vs) db1)) = executed db1 @ js"
        "set js \<subseteq> {Insert ''evolutions''}"
      using executemany_executed [of "''evolutions''" "map (\<lambda>(a, b). [PStr a, PStr b]) vs" db1]
      by blast
    have "executed (snd (insert_evolutions_table pkmn db)) = executed db @ (Select ''evolutions'' # js)"
      using js(1) by (simp add: evolutions_unguarded [OF False] Inr db1_def)
    moreover have "set (Select ''evolutions'' # js) \<subseteq> {Insert ''pokemon'', Insert ''formes'', Insert ''form_descriptions'', Insert ''form_abilities'', Select ''evolutions'', Insert ''evolutions''}"
    proof -
      have "{Insert ''evolutions''} \<subseteq> {Insert ''pokemon'', Insert ''formes'', Insert ''form_descriptions'', Insert ''form_abilities'', Select ''evolutions'', Insert ''evolutions''}"
        by simp
      with js(2) have "set js \<subseteq> {Insert ''pokemon'', Insert ''formes'', Insert ''form_descriptions'', Insert ''form_abilities'', Select ''evolutions'', Insert ''evolutions''}"
        by (rule subset_trans)
      moreover have "Select ''evolutions'' \<in> {Insert ''pokemon'', Insert ''formes'', Insert ''form_descriptions'', Insert ''form_abilities'', Select ''evolutions'', Insert ''evolutions''}"
        by simp
      ultimately show ?thesis
        by (simp only: list.set insert_subset simp_thms)
    qed
    ultimately show ?thesis by blast
  qed
qed

lemma insert_pkmn_executed:
  "\<exists>js. executed (snd (insert_pkmn pkmn db)) = executed db @ js \<and> set js \<subseteq> {Insert ''pokemon'', Insert ''formes'', Insert ''form_descriptions'', Insert ''form_abilities'', Select ''evolutions'', Insert ''evolutions''}"
  unfolding insert_pkmn_def
  apply (rule and_then_executed)
   apply (rule insert_pokemon_table_executed)
  apply (rule and_then_executed)
   apply (rule insert_formes_table_executed)
  apply (rule and_then_executed)
   apply (rule insert_form_descriptions_table_executed)
  apply (rule and_then_executed)
   apply (rule insert_form_abilities_table_executed)
  apply (rule insert_evolutions_table_executed)
  done

lemma for_each_abilities_executed:
  "\<exists>js. executed (snd (for_each insert_abilities_table ability_coll db)) = executed db @ js \<and>
     set js \<subseteq> {Select ''abilities'', Insert ''abilities''}"
  by (rule for_each_executed) (simp add: insert_abilities_table_raises)

lemma for_each_abilities_completes:
  assumes "fst (for_each insert_abilities_table ability_coll db) = Inr ()"
  shows "ability_coll = []"
  using assms by (cases ability_coll) (simp_all add: insert_abilities_table_raises)

text \<open>
  The order of the two loops of \<open>fill_sqlite_db\<close>, on the statements executed: those on
  the abilities table come first, and a statement on another table is executed only
  after the loop over the abilities has returned normally.
\<close>

lemma executed_abilities_then_pokemon:
  "\<exists>A E. executed (snd (fill_sqlite_db ability_coll pkmn_coll db)) = executed db @ A @ E \<and>
     set A \<subseteq> {Select ''abilities'', Insert ''abilities''} \<and>
     set E \<subseteq> {Insert ''pokemon'', Insert ''formes'', Insert ''form_descriptions'', Insert ''form_abilities'', Select ''evolutions'', Insert ''evolutions''} \<and>
     (E \<noteq> [] \<longrightarrow>
        fst (for_each insert_abilities_table ability_coll db) = Inr () \<and>
        length (filter (\<lambda>s. s = Select ''abilities'') A) = length ability_coll)"
proof -
  obtain r dbA where a: "for_each insert_abilities_table ability_coll db = (r, dbA)"
    by (cases "for_each insert_abilities_table ability_coll db")
  obtain A where A: "executed dbA = executed db @ A" "set A \<subseteq> {Select ''abilities'', Insert ''abilities''}"
    using for_each_abilities_executed [of ability_coll db] a by auto
  show ?thesis
  proof (cases r)
    case (Inl e)
    have "executed (snd (fill_sqlite_db ability_coll pkmn_coll db)) = executed db @ A @ []"
      using a Inl A(1) by (simp add: fill_sqlite_db_def and_then_def)
    with A(2) show ?thesis
      by (intro exI [of _ A] exI [of _ "[]"]) simp
  next
    case (Inr u)
    then have ok: "fst (for_each insert_abilities_table ability_coll db) = Inr ()"
      using a by simp
    then have "ability_coll = []" by (rule for_each_abilities_completes)
    then have "A = []" using a A(1) by simp
    obtain E where E: "executed (snd (for_each insert_pkmn pkmn_coll dbA)) = executed dbA @ E"
        "set E \<subseteq> {Insert ''pokemon'', Insert ''formes'', Insert ''form_descriptions'', Insert ''form_abilities'', Select ''evolutions'', Insert ''evolutions''}"
      using for_each_executed [of insert_pkmn "{Insert ''pokemon'', Insert ''formes'', Insert ''form_descriptions'', Insert ''form_abilities'', Select ''evolutions'', Insert ''evolutions''}" pkmn_coll dbA, OF insert_pkmn_executed]
      by blast
    have "executed (snd (fill_sqlite_db ability_coll pkmn_coll db)) = executed db @ A @ E"
      using a Inr A(1) E(1) by (simp add: fill_sqlite_db_def and_then_def)
    moreover have "length (filter (\<lambda>s. s = Select ''abilities'') A) = length ability_coll"
      using \<open>A = []\<close> \<open>ability_coll = []\<close> by simp
    ultimately show ?thesis using A(2) E(2) ok
      by (intro exI [of _ A] exI [of _ E]) simp
  qed
qed

text \<open>A load with an empty abilities collection.\<close>

lemma fill_eevee:
  "fill_sqlite_db [] [\<lparr>url = ''https://www.pokemon.com/us/pokedex/eevee'', name = ''Eevee'', number = 133,
        evolutions = [[(''first'', [''Eevee''])]],
        formes = [[(''form'', FStr ''Eevee''), (''image'', FStr ''133.png''),
                   (''descriptions'', FList [''It can evolve.'', ''It can evolve.'']),
                   (''types'', FList [''Normal'']), (''height'', FStr ''1 00''),
                   (''weight'', FStr ''14.3 lbs''), (''gender'', FList [''Male'', ''Female'']),
                   (''category'', FStr ''Evolution'')]]\<rparr>] create_sqlite_db =
     (Inr (),
      \<lparr>rows = (\<lambda>t. [])
         (''pokemon'' := [[TEXT ''Eevee'', INTEGER 133]],
          ''formes'' := [[TEXT ''Eevee'', TEXT ''Eevee'', TEXT ''1 00'', TEXT ''14.3 lbs'',
                         TEXT ''Evolution'', TEXT ''Normal'', NULL, INTEGER 1, INTEGER 1]],
          ''form_descriptions'' := [[TEXT ''Eevee'', TEXT ''Eevee'', TEXT ''It can evolve.'']]),
       executed = [Insert ''pokemon'', Insert ''formes'', Insert ''form_descriptions'',
                   Select ''evolutions'']\<rparr>)"
  by (simp add: fill_sqlite_db_def and_then_def insert_pkmn_def insert_pokemon_table_def
      insert_formes_table_def insert_form_descriptions_table_def insert_form_abilities_table_def
      insert_evolutions_table_def formes_values_def form_descriptions_values_def
      executemany_insert_def execute_insert_def execute_select_def then_do_def getitem_def
      subscript_def len_def keys_def column_count_def primary_key_def not_null_def
      evolution_values_def combine_def dict_update_def create_sqlite_db_def)


section \<open>Properties of the scraper\<close>

lemma startswith_iff: "startswith s sub \<longleftrightarrow> (\<exists>suf. s = sub @ suf)"
proof
  assume "startswith s sub"
  then have "s = sub @ drop (length sub) s"
    by (metis append_take_drop_id startswith_def)
  then show "\<exists>suf. s = sub @ suf" ..
next
  assume "\<exists>suf. s = sub @ suf"
  then show "startswith s sub" by (auto simp: startswith_def)
qed

lemma find_from_found:
  "0 \<le> i \<Longrightarrow> find_from s sub i \<noteq> - 1 \<longleftrightarrow> (\<exists>pre suf. s = pre @ sub @ suf)"
proof (induction s arbitrary: i)
  case Nil
  then show ?case by auto
next
  case (Cons c s)
  show ?case
  proof (cases "startswith (c # s) sub")
    case True
    then obtain suf where "c # s = [] @ sub @ suf" by (auto simp: startswith_iff)
    then have "\<exists>pre suf. c # s = pre @ sub @ suf" by blast
    then show ?thesis using True Cons.prems by simp
  next
    case False
    have "(\<exists>pre suf. c # s = pre @ sub @ suf) \<longleftrightarrow> (\<exists>pre suf. s = pre @ sub @ suf)"
    proof
      assume "\<exists>pre suf. c # s = pre @ sub @ suf"
      then obtain pre suf where e: "c # s = pre @ sub @ suf" by blast
      have "pre \<noteq> []" using e False by (auto simp: startswith_iff)
      then obtain pre' where "pre = c # pre'" using e by (cases pre) auto
      then have "s = pre' @ sub @ suf" using e by simp
      then show "\<exists>pre suf. s = pre @ sub @ suf" by blast
    next
      assume "\<exists>pre suf. s = pre @ sub @ suf"
      then obtain pre suf where "s = pre @ sub @ suf" by blast
      then have "c # s = (c # pre) @ sub @ suf" by simp
      then show "\<exists>pre suf. c # s = pre @ sub @ suf" by blast
    qed
    moreover have "find_from (c # s) sub i = find_from s sub (i + 1)"
      using False by simp
    ultimately show ?thesis using Cons.IH [of "i + 1"] Cons.prems by simp
  qed
qed

lemma str_find_found: "sublist sub s \<longleftrightarrow> str_find s sub \<noteq> - 1"
  by (simp add: str_find_def find_from_found sublist_def)

lemma icon_genders_classified:
  "list_all (\<lambda>icon. 2 \<le> length icon) icons \<Longrightarrow>
     icon_genders icons genders =
       Inr (genders @ map (\<lambda>icon. if str_find (icon ! 1) ''female'' \<noteq> - 1 then ''Female'' else ''Male'') icons)"
  by (induction icons arbitrary: genders) (simp_all add: item_def)

text \<open>
  C10 (as stated, refuted).  An icon with a single style class is not classified Male:
  the subscript \<open>icon.attrs["class"][1]\<close> raises \<open>IndexError\<close>.  And the text of a value
  without icons is returned stripped of the blanks and newlines around it, not as it is.
\<close>

theorem gender_icons_or_text_counterexample:
  "scrape_genders \<lparr>value_text = '' '', value_icons = [[''icon'']]\<rparr> = Inl IndexError \<and>
   scrape_genders \<lparr>value_text = [CHR 0x0A] @ ''  Unknown'' @ [CHR 0x0A], value_icons = []\<rparr> =
     Inr [''Unknown''] \<and>
   [''Unknown''] \<noteq> [[CHR 0x0A] @ ''  Unknown'' @ [CHR 0x0A]]"
  by (simp add: scrape_genders_def item_def strip_def space_newline_def)

text \<open>
  C10 (amended).  When the gender value holds icons, each of which has a second style
  class, the genders are one entry for each icon, in order: Female when the second
  class contains \<open>female\<close>, Male otherwise.  When it holds no icon, the genders are the
  single text of the value, stripped of the blanks and newlines around it.  The two are
  never combined.
\<close>

theorem gender_icons_or_text:
  "(value_icons v \<noteq> [] \<and> list_all (\<lambda>icon. 2 \<le> length icon) (value_icons v) \<longrightarrow>
      scrape_genders v =
        Inr (map (\<lambda>icon. if sublist ''female'' (icon ! 1) then ''Female'' else ''Male'')
               (value_icons v))) \<and>
   (value_icons v = [] \<longrightarrow> scrape_genders v = Inr [strip (value_text v) space_newline])"
  by (simp add: scrape_genders_def icon_genders_classified str_find_found)

theorem gender_icons_or_text_witness:
  "scrape_genders \<lparr>value_text = '''', value_icons = [[''icon'', ''icon_male_symbol''], [''icon'', ''icon_female_symbol'']]\<rparr>
     = Inr [''Male'', ''Female''] \<and>
   scrape_genders \<lparr>value_text = [CHR 0x0A] @ ''  Unknown'' @ [CHR 0x0A], value_icons = []\<rparr> = Inr [''Unknown'']"
  using gender_icons_or_text [of "\<lparr>value_text = '''', value_icons = [[''icon'', ''icon_male_symbol''], [''icon'', ''icon_female_symbol'']]\<rparr>"]
    gender_icons_or_text [of "\<lparr>value_text = [CHR 0x0A] @ ''  Unknown'' @ [CHR 0x0A], value_icons = []\<rparr>"]
  by (simp add: str_find_found str_find_def startswith_def strip_def space_newline_def)

lemma then_do_Inl: "then_do r f = Inl e \<Longrightarrow> r = Inl e \<or> (\<exists>x. r = Inr x \<and> f x = Inl e)"
  by (cases r) (simp_all add: then_do_def)

lemma item_error: "item xs i = Inl e \<Longrightarrow> e = IndexError"
  by (simp add: item_def split: if_splits)

lemma icon_genders_error: "icon_genders icons genders = Inl e \<Longrightarrow> e = IndexError"
  by (induction icons arbitrary: genders) (auto simp: item_def split: if_splits)

lemma scrape_genders_error: "scrape_genders v = Inl e \<Longrightarrow> e = IndexError"
  by (auto simp: scrape_genders_def split: if_splits dest: icon_genders_error)

lemma scrape_form_info_error:
  assumes "scrape_form_info form_info = Inl e"
  shows "e = IndexError"
  using assms unfolding scrape_form_info_def Let_def
  by (auto dest!: then_do_Inl dest: item_error scrape_genders_error split: if_splits)

lemma misc_info_loop_error: "misc_info_loop zs info = Inl e \<Longrightarrow> e = IndexError"
proof (induction zs arbitrary: info)
  case Nil
  then show ?case by simp
next
  case (Cons z zs)
  obtain form_info form where z: "z = (form_info, form)" by (cases z)
  show ?case
  proof (cases "scrape_form_info form_info")
    case (Inl e')
    then show ?thesis using Cons.prems z scrape_form_info_error by simp
  next
    case (Inr d)
    then show ?thesis using Cons.prems z Cons.IH by simp
  qed
qed

lemma getitem_error: "getitem d k = Inl e \<Longrightarrow> e = KeyError k"
  by (simp add: getitem_def split: option.splits)

lemma assemble_error:
  "assemble forms images descriptions types misc_info acc = Inl e \<Longrightarrow> \<exists>k. e = KeyError k"
proof (induction forms arbitrary: acc)
  case Nil
  then show ?case by simp
next
  case (Cons form forms)
  from Cons.prems show ?case
    by (auto dest!: then_do_Inl dest: getitem_error Cons.IH)
qed

lemma scrape_number_error:
  "scrape_number py_int pg = Inl e \<Longrightarrow> \<exists>s. e = ValueError (''invalid literal for int() with base 10: '' @ s)"
  by (auto simp: scrape_number_def Let_def split: option.splits)

lemma scrape_pokemon_error:
  assumes "scrape_pokemon py_int self_url pg = Inl e"
  shows "(\<exists>s. e = ValueError (''invalid literal for int() with base 10: '' @ s)) \<or>
         e = IndexError \<or> (\<exists>k. e = KeyError k)"
proof -
  from assms consider
      "scrape_number py_int pg = Inl e"
    | "scrape_misc_info (scrape_formes pg) pg = Inl e"
    | misc_info where "assemble (scrape_formes pg) (scrape_images (scrape_formes pg) pg)
          (scrape_descriptions (scrape_formes pg) pg) (scrape_types (scrape_formes pg) pg)
          misc_info [] = Inl e"
    unfolding scrape_pokemon_def Let_def
    by (auto dest!: then_do_Inl)
  then show ?thesis
  proof cases
    case 1
    then show ?thesis using scrape_number_error by blast
  next
    case 2
    then show ?thesis using misc_info_loop_error by (simp add: scrape_misc_info_def)
  next
    case 3
    then show ?thesis using assemble_error by blast
  qed
qed

text \<open>
  C9.  For a url that does not start with \<open>https://www.pokemon.com/us/pokedex/\<close>, the
  constructor raises the \<open>ValueError\<close> with its message and no page is requested.  For a
  url that starts with it, the page is requested and that error is not raised.
\<close>

theorem url_prefix_checked_first:
  "(\<not> startswith pokemon_url ''https://www.pokemon.com/us/pokedex/'' \<longrightarrow>
      init py_int fetch pokemon_url requested =
        (Inl (ValueError (error_message pokemon_url)), requested)) \<and>
   (startswith pokemon_url ''https://www.pokemon.com/us/pokedex/'' \<longrightarrow>
      fst (init py_int fetch pokemon_url requested) \<noteq> Inl (ValueError (error_message pokemon_url)) \<and>
      snd (init py_int fetch pokemon_url requested) = requested @ [pokemon_url])"
proof (intro conjI impI)
  assume "\<not> startswith pokemon_url ''https://www.pokemon.com/us/pokedex/''"
  then show "init py_int fetch pokemon_url requested =
      (Inl (ValueError (error_message pokemon_url)), requested)"
    by (simp add: init_def)
next
  assume s: "startswith pokemon_url ''https://www.pokemon.com/us/pokedex/''"
  show "snd (init py_int fetch pokemon_url requested) = requested @ [pokemon_url]"
    using s by (simp add: init_def split: option.splits)
  show "fst (init py_int fetch pokemon_url requested) \<noteq> Inl (ValueError (error_message pokemon_url))"
  proof (cases "fetch pokemon_url")
    case None
    then show ?thesis using s by (simp add: init_def)
  next
    case (Some pg)
    show ?thesis
    proof
      assume "fst (init py_int fetch pokemon_url requested) = Inl (ValueError (error_message pokemon_url))"
      then have "scrape_pokemon py_int pokemon_url pg = Inl (ValueError (error_message pokemon_url))"
        using s Some by (auto simp: init_def dest!: then_do_Inl)
      from scrape_pokemon_error [OF this] show False
        by (simp add: error_message_def)
    qed
  qed
qed

theorem url_prefix_checked_first_witness:
  "init (\<lambda>s. None) (\<lambda>u. None) ''https://bulbapedia.bulbagarden.net/wiki/Eevee'' [] =
     (Inl (ValueError (error_message ''https://bulbapedia.bulbagarden.net/wiki/Eevee'')), []) \<and>
   fst (init (\<lambda>s. None) (\<lambda>u. None) ''https://www.pokemon.com/us/pokedex/eevee'' []) \<noteq>
     Inl (ValueError (error_message ''https://www.pokemon.com/us/pokedex/eevee'')) \<and>
   snd (init (\<lambda>s. None) (\<lambda>u. None) ''https://www.pokemon.com/us/pokedex/eevee'' []) =
     [''https://www.pokemon.com/us/pokedex/eevee'']"
  using url_prefix_checked_first [of "''https://bulbapedia.bulbagarden.net/wiki/Eevee''" "\<lambda>s. None" "\<lambda>u. None" "[]"]
    url_prefix_checked_first [of "''https://www.pokemon.com/us/pokedex/eevee''" "\<lambda>s. None" "\<lambda>u. None" "[]"]
  by (simp add: startswith_def)

lemma keys_update: "set (keys (AList.update k v d)) = insert k (set (keys d))"
  by (simp add: keys_def dom_update)

lemma keys_Cons: "keys ((k, v) # d) = k # keys d"
  by (simp add: keys_def)

lemma keys_dict_update: "set (keys (dict_update d other)) = set (keys d) \<union> set (keys other)"
proof (induction other arbitrary: d)
  case Nil
  show ?case by (simp add: dict_update_def keys_def)
next
  case (Cons kv other)
  obtain k v where kv: "kv = (k, v)" by (cases kv)
  have "dict_update d (kv # other) = dict_update (AList.update k v d) other"
    by (simp add: dict_update_def kv)
  then show ?case
    by (simp add: Cons.IH keys_update kv keys_Cons)
qed

lemma item_in_range: "i < length xs \<Longrightarrow> item xs i = Inr (xs ! i)"
  by (simp add: item_def)

lemma scrape_form_info_four:
  assumes "4 \<le> length (attribute_titles fi)" and "4 \<le> length (attribute_values fi)"
    and "\<not> (4 < length (attribute_titles fi) \<and> 4 < length (attribute_values fi))"
    and "scrape_genders (attribute_values fi ! 2) = Inr genders"
  shows "scrape_form_info fi =
     Inr (AList.update (lower (attribute_titles fi ! 3)) (FStr (value_text (attribute_values fi ! 3)))
         (AList.update (lower (attribute_titles fi ! 2)) (FList genders)
         (AList.update (lower (attribute_titles fi ! 1)) (FStr (value_text (attribute_values fi ! 1)))
         (AList.update (lower (attribute_titles fi ! 0)) (FStr (value_text (attribute_values fi ! 0))) []))))"
proof -
  have t: "item (attribute_titles fi) 0 = Inr (attribute_titles fi ! 0)"
      "item (attribute_titles fi) 1 = Inr (attribute_titles fi ! 1)"
      "item (attribute_titles fi) 2 = Inr (attribute_titles fi ! 2)"
      "item (attribute_titles fi) 3 = Inr (attribute_titles fi ! 3)"
    using assms(1) by (auto simp: item_def)
  have v: "item (attribute_values fi) 0 = Inr (attribute_values fi ! 0)"
      "item (attribute_values fi) 1 = Inr (attribute_values fi ! 1)"
      "item (attribute_values fi) 2 = Inr (attribute_values fi ! 2)"
      "item (attribute_values fi) 3 = Inr (attribute_values fi ! 3)"
    using assms(2) by (auto simp: item_def)
  show ?thesis
    unfolding scrape_form_info_def Let_def
    by (simp only: t v then_do_def sum.case assms(3) assms(4) if_False)
qed

lemma form_abilities_values_none:
  "''abilities'' \<notin> set (keys d) \<Longrightarrow> form_abilities_values n [d] vs = Inr vs"
  by simp

lemma take_four: "4 \<le> length xs \<Longrightarrow> take 4 xs = [xs ! 0, xs ! 1, xs ! 2, xs ! 3]"
  by (cases xs; cases "tl xs"; cases "tl (tl xs)"; cases "tl (tl (tl xs))")
    (auto simp: numeral_eq_Suc)

lemma lower_titles:
  "lower ''Height'' = ''height''" "lower ''Weight'' = ''weight''"
  "lower ''Gender'' = ''gender''" "lower ''Category'' = ''category''"
  "lower ''Abilities'' = ''abilities''"
  by code_simp+

lemma insert_form_abilities_table_none:
  assumes "formes pkmn = [d]" and "''abilities'' \<notin> set (keys d)"
  shows "insert_form_abilities_table pkmn db = (Inr (), db)"
  using assms by (simp add: insert_form_abilities_table_def executemany_insert_def)

lemma form_info_example:
  "scrape_form_info \<lparr>attribute_titles = [''Height'', ''Weight'', ''Gender'', ''Category''],
       attribute_values = [\<lparr>value_text = ''1 00'', value_icons = []\<rparr>,
                           \<lparr>value_text = ''14.3 lbs'', value_icons = []\<rparr>,
                           \<lparr>value_text = ''Unknown'', value_icons = []\<rparr>,
                           \<lparr>value_text = ''Virtual'', value_icons = []\<rparr>]\<rparr> = Inr [(''height'', FStr ''1 00''), (''weight'', FStr ''14.3 lbs''), (''gender'', FList [''Unknown'']), (''category'', FStr ''Virtual'')]"
  by (simp add: scrape_form_info_def then_do_def item_def scrape_genders_def strip_def
      space_newline_def lower_titles)

text \<open>
  C7 (as stated, refuted).  For a form with four attribute titles and values, and so
  no ability section, the extracted dict has no entry \<open>abilities\<close> at all: subscripting
  it raises \<open>KeyError\<close>, it is not an empty list.
\<close>

theorem no_ability_section_counterexample:
  "scrape_form_info \<lparr>attribute_titles = [''Height'', ''Weight'', ''Gender'', ''Category''],
       attribute_values = [\<lparr>value_text = ''1 00'', value_icons = []\<rparr>,
                           \<lparr>value_text = ''14.3 lbs'', value_icons = []\<rparr>,
                           \<lparr>value_text = ''Unknown'', value_icons = []\<rparr>,
                           \<lparr>value_text = ''Virtual'', value_icons = []\<rparr>]\<rparr> = Inr [(''height'', FStr ''1 00''), (''weight'', FStr ''14.3 lbs''), (''gender'', FList [''Unknown'']), (''category'', FStr ''Virtual'')] \<and>
   getitem [(''height'', FStr ''1 00''), (''weight'', FStr ''14.3 lbs''), (''gender'', FList [''Unknown'']), (''category'', FStr ''Virtual'')] ''abilities'' = Inl (KeyError ''abilities'') \<and>
   getitem [(''height'', FStr ''1 00''), (''weight'', FStr ''14.3 lbs''), (''gender'', FList [''Unknown'']), (''category'', FStr ''Virtual'')] ''abilities'' \<noteq> Inr (FList [])"
  by (simp add: form_info_example) (simp add: getitem_def)

lemma form_abilities_values_skip:
  assumes "''abilities'' \<notin> set (keys d)"
  shows "form_abilities_values n (pre @ d # post) vs = form_abilities_values n (pre @ post) vs"
proof (induction pre arbitrary: vs)
  case Nil
  show ?case using assms by simp
next
  case (Cons p pre)
  show ?case
    by (simp add: Cons.IH split: sum.splits)
qed

lemma insert_form_abilities_table_skip:
  assumes "''abilities'' \<notin> set (keys d)"
  shows "insert_form_abilities_table
           \<lparr>url = u, name = n, number = i, evolutions = evos, formes = pre @ d # post\<rparr> db =
         insert_form_abilities_table
           \<lparr>url = u, name = n, number = i, evolutions = evos, formes = pre @ post\<rparr> db"
  by (simp add: insert_form_abilities_table_def form_abilities_values_skip [OF assms])

lemma scrape_genders_succeeds:
  "list_all (\<lambda>icon. 2 \<le> length icon) (value_icons v) \<Longrightarrow> \<exists>genders. scrape_genders v = Inr genders"
  by (simp add: scrape_genders_def icon_genders_classified)

text \<open>
  C7 (amended).  For a form whose region has at least four attribute titles and values
  but not more than four of both, none of whose first four titles is \<open>abilities\<close> in
  lower case, and whose gender icons, if any, each have a second style class,
  extraction raises nothing and gives the form no entry \<open>abilities\<close> (neither in the
  extracted dict, where the subscript raises \<open>KeyError\<close>, nor in the assembled form);
  \<open>insert_form_abilities_table\<close> then does for the pokemon what it does without that
  form in its list of forms: it writes no row for the form.
\<close>

theorem no_ability_section:
  "4 \<le> length (attribute_titles fi) \<and> 4 \<le> length (attribute_values fi) \<and>
   \<not> (4 < length (attribute_titles fi) \<and> 4 < length (attribute_values fi)) \<and>
   list_all (\<lambda>icon. 2 \<le> length icon) (value_icons (attribute_values fi ! 2)) \<and>
   ''abilities'' \<notin> set (map lower (take 4 (attribute_titles fi))) \<longrightarrow>
   (\<exists>info. scrape_form_info fi = Inr info \<and>
      ''abilities'' \<notin> set (keys info) \<and>
      getitem info ''abilities'' = Inl (KeyError ''abilities'') \<and>
      ''abilities'' \<notin> set (keys (dict_update (AList.update ''types'' (FList ts) (AList.update ''descriptions'' (FList ds)
           (AList.update ''image'' (FStr img) (AList.update ''form'' (FStr form) [])))) info)) \<and>
      insert_form_abilities_table
        \<lparr>url = u, name = n, number = i, evolutions = evos,
         formes = pre @ dict_update (AList.update ''types'' (FList ts) (AList.update ''descriptions'' (FList ds)
           (AList.update ''image'' (FStr img) (AList.update ''form'' (FStr form) [])))) info # post\<rparr> db =
      insert_form_abilities_table
        \<lparr>url = u, name = n, number = i, evolutions = evos, formes = pre @ post\<rparr> db)"
proof (intro impI, elim conjE)
  assume h: "4 \<le> length (attribute_titles fi)" "4 \<le> length (attribute_values fi)"
    "\<not> (4 < length (attribute_titles fi) \<and> 4 < length (attribute_values fi))"
    and ic: "list_all (\<lambda>icon. 2 \<le> length icon) (value_icons (attribute_values fi ! 2))"
    and na: "''abilities'' \<notin> set (map lower (take 4 (attribute_titles fi)))"
  obtain genders where g: "scrape_genders (attribute_values fi ! 2) = Inr genders"
    using scrape_genders_succeeds [OF ic] by blast
  define info where "info =
    AList.update (lower (attribute_titles fi ! 3)) (FStr (value_text (attribute_values fi ! 3)))
   (AList.update (lower (attribute_titles fi ! 2)) (FList genders)
   (AList.update (lower (attribute_titles fi ! 1)) (FStr (value_text (attribute_values fi ! 1)))
   (AList.update (lower (attribute_titles fi ! 0)) (FStr (value_text (attribute_values fi ! 0))) [])))"
  have s: "scrape_form_info fi = Inr info"
    unfolding info_def using h g by (rule scrape_form_info_four)
  have "set (keys info) = set (map lower (take 4 (attribute_titles fi)))"
    unfolding info_def take_four [OF h(1)] by (simp only: keys_update) (auto simp: keys_def)
  with na have k: "''abilities'' \<notin> set (keys info)" by simp
  then have e: "getitem info ''abilities'' = Inl (KeyError ''abilities'')"
    by (rule getitem_None)
  have b: "''abilities'' \<notin> set (keys (dict_update (AList.update ''types'' (FList ts) (AList.update ''descriptions'' (FList ds)
           (AList.update ''image'' (FStr img) (AList.update ''form'' (FStr form) [])))) info))"
    using k by (simp only: keys_dict_update keys_update) (simp add: keys_def)
  note l = insert_form_abilities_table_skip [OF b, of u n i evos pre post db]
  from s k e b l show "\<exists>info. scrape_form_info fi = Inr info \<and>
      ''abilities'' \<notin> set (keys info) \<and>
      getitem info ''abilities'' = Inl (KeyError ''abilities'') \<and>
      ''abilities'' \<notin> set (keys (dict_update (AList.update ''types'' (FList ts) (AList.update ''descriptions'' (FList ds)
           (AList.update ''image'' (FStr img) (AList.update ''form'' (FStr form) [])))) info)) \<and>
      insert_form_abilities_table
        \<lparr>url = u, name = n, number = i, evolutions = evos,
         formes = pre @ dict_update (AList.update ''types'' (FList ts) (AList.update ''descriptions'' (FList ds)
           (AList.update ''image'' (FStr img) (AList.update ''form'' (FStr form) [])))) info # post\<rparr> db =
      insert_form_abilities_table
        \<lparr>url = u, name = n, number = i, evolutions = evos, formes = pre @ post\<rparr> db"
    by (intro exI [of _ info] conjI)
qed

theorem no_ability_section_witness:
  "scrape_form_info \<lparr>attribute_titles = [''Height'', ''Weight'', ''Gender'', ''Category''],
       attribute_values = [\<lparr>value_text = ''1 00'', value_icons = []\<rparr>,
                           \<lparr>value_text = ''14.3 lbs'', value_icons = []\<rparr>,
                           \<lparr>value_text = ''Unknown'', value_icons = []\<rparr>,
                           \<lparr>value_text = ''Virtual'', value_icons = []\<rparr>]\<rparr> = Inr [(''height'', FStr ''1 00''), (''weight'', FStr ''14.3 lbs''), (''gender'', FList [''Unknown'']), (''category'', FStr ''Virtual'')] \<and>
   ''abilities'' \<notin> set (keys [(''height'', FStr ''1 00''), (''weight'', FStr ''14.3 lbs''), (''gender'', FList [''Unknown'']), (''category'', FStr ''Virtual'')]) \<and>
   insert_form_abilities_table
     \<lparr>url = ''https://www.pokemon.com/us/pokedex/porygon'', name = ''Porygon'', number = 137,
      evolutions = [], formes = [[(''form'', FStr ''Porygon2''), (''abilities'', FList [''Download''])]] @ dict_update (AList.update ''types'' (FList [''Normal''])
            (AList.update ''descriptions'' (FList [''It is made of code.'', ''It can enter cyberspace.''])
            (AList.update ''image'' (FStr ''137.png'')
            (AList.update ''form'' (FStr ''Porygon'') [])))) [(''height'', FStr ''1 00''), (''weight'', FStr ''14.3 lbs''), (''gender'', FList [''Unknown'']), (''category'', FStr ''Virtual'')] # []\<rparr> create_sqlite_db =
     (Inr (), \<lparr>rows = (\<lambda>t. [])(''form_abilities'' :=
                  [[TEXT ''Porygon'', TEXT ''Porygon2'', TEXT ''Download'']]),
               executed = [Insert ''form_abilities'']\<rparr>)"
proof -
  have "\<exists>info. scrape_form_info \<lparr>attribute_titles = [''Height'', ''Weight'', ''Gender'', ''Category''],
       attribute_values = [\<lparr>value_text = ''1 00'', value_icons = []\<rparr>,
                           \<lparr>value_text = ''14.3 lbs'', value_icons = []\<rparr>,
                           \<lparr>value_text = ''Unknown'', value_icons = []\<rparr>,
                           \<lparr>value_text = ''Virtual'', value_icons = []\<rparr>]\<rparr> = Inr info \<and>
      ''abilities'' \<notin> set (keys info) \<and>
      getitem info ''abilities'' = Inl (KeyError ''abilities'') \<and>
      ''abilities'' \<notin> set (keys (dict_update (AList.update ''types'' (FList [''Normal''])
            (AList.update ''descriptions'' (FList [''It is made of code.'', ''It can enter cyberspace.''])
            (AList.update ''image'' (FStr ''137.png'')
            (AList.update ''form'' (FStr ''Porygon'') [])))) info)) \<and>
      insert_form_abilities_table
        \<lparr>url = ''https://www.pokemon.com/us/pokedex/porygon'', name = ''Porygon'', number = 137,
         evolutions = [], formes = [[(''form'', FStr ''Porygon2''), (''abilities'', FList [''Download''])]] @ dict_update (AList.update ''types'' (FList [''Normal''])
            (AList.update ''descriptions'' (FList [''It is made of code.'', ''It can enter cyberspace.''])
            (AList.update ''image'' (FStr ''137.png'')
            (AList.update ''form'' (FStr ''Porygon'') [])))) info # []\<rparr> create_sqlite_db =
      insert_form_abilities_table
        \<lparr>url = ''https://www.pokemon.com/us/pokedex/porygon'', name = ''Porygon'', number = 137,
         evolutions = [], formes = [[(''form'', FStr ''Porygon2''), (''abilities'', FList [''Download''])]] @ []\<rparr> create_sqlite_db"
    using no_ability_section [of "\<lparr>attribute_titles = [''Height'', ''Weight'', ''Gender'', ''Category''],
       attribute_values = [\<lparr>value_text = ''1 00'', value_icons = []\<rparr>,
                           \<lparr>value_text = ''14.3 lbs'', value_icons = []\<rparr>,
                           \<lparr>value_text = ''Unknown'', value_icons = []\<rparr>,
                           \<lparr>value_text = ''Virtual'', value_icons = []\<rparr>]\<rparr>" "[''Normal'']"
        "[''It is made of code.'', ''It can enter cyberspace.'']" "''137.png''" "''Porygon''"
        "''https://www.pokemon.com/us/pokedex/porygon''" "''Porygon''" 137 "[]"
        "[[(''form'', FStr ''Porygon2''), (''abilities'', FList [''Download''])]]" "[]" create_sqlite_db]
    by (simp add: lower_titles)
  moreover have "insert_form_abilities_table
        \<lparr>url = ''https://www.pokemon.com/us/pokedex/porygon'', name = ''Porygon'', number = 137,
         evolutions = [], formes = [[(''form'', FStr ''Porygon2''), (''abilities'', FList [''Download''])]] @ []\<rparr> create_sqlite_db =
     (Inr (), \<lparr>rows = (\<lambda>t. [])(''form_abilities'' :=
                  [[TEXT ''Porygon'', TEXT ''Porygon2'', TEXT ''Download'']]),
               executed = [Insert ''form_abilities'']\<rparr>)"
    by (simp add: insert_form_abilities_table_def keys_def getitem_def executemany_insert_def
        execute_insert_def column_count_def not_null_def primary_key_def create_sqlite_db_def)
  ultimately show ?thesis
    by (auto simp: form_info_example)
qed

lemma zip_take_length: "zip (take (length ys) xs) ys = zip xs ys"
proof (induction ys arbitrary: xs)
  case Nil
  show ?case by simp
next
  case (Cons y ys)
  show ?case by (cases xs) (simp_all add: Cons.IH)
qed

lemma snd_zip: "snd ` set (zip xs ys) = set (take (length xs) ys)"
proof -
  have "snd ` set (zip xs ys) = set (map snd (zip xs ys))" by simp
  also have "\<dots> = set (take (min (length xs) (length ys)) ys)"
    by (simp only: map_snd_zip_take)
  also have "\<dots> = set (take (length xs) ys)"
    by (simp add: min_def)
  finally show ?thesis .
qed

lemma keys_fold_update:
  "set (keys (fold (\<lambda>(x, k) d. AList.update k (g x) d) zs d)) = set (keys d) \<union> snd ` set zs"
proof (induction zs arbitrary: d)
  case Nil
  show ?case by simp
next
  case (Cons z zs)
  obtain x k where z: "z = (x, k)" by (cases z)
  show ?case by (simp add: z Cons.IH keys_update)
qed

lemma keys_scrape_images:
  "set (keys (scrape_images forms pg)) = set (take (length (profile_images pg)) forms)"
  unfolding scrape_images_def
  using keys_fold_update [of "\<lambda>x. x" "zip (profile_images pg) forms" "[]"]
  by (simp add: snd_zip keys_def)

lemma keys_scrape_descriptions:
  "set (keys (scrape_descriptions forms pg)) = set (take (length (version_descriptions pg)) forms)"
  unfolding scrape_descriptions_def
  using keys_fold_update [of "map (\<lambda>d. strip d space_newline)" "zip (version_descriptions pg) forms" "[]"]
  by (simp add: snd_zip keys_def)

lemma keys_scrape_types:
  "set (keys (scrape_types forms pg)) = set (take (length (dtm_type pg)) forms)"
  unfolding scrape_types_def
  using keys_fold_update [of "map (\<lambda>t. strip t space_newline)" "zip (dtm_type pg) forms" "[]"]
  by (simp add: snd_zip keys_def)

lemma keys_misc_info_loop:
  "misc_info_loop zs info = Inr info' \<Longrightarrow> set (keys info') = set (keys info) \<union> snd ` set zs"
proof (induction zs arbitrary: info)
  case Nil
  then show ?case by simp
next
  case (Cons z zs)
  obtain form_info form where z: "z = (form_info, form)" by (cases z)
  show ?case
  proof (cases "scrape_form_info form_info")
    case (Inl e)
    then show ?thesis using Cons.prems z by simp
  next
    case (Inr d)
    then have "misc_info_loop zs (AList.update form d info) = Inr info'"
      using Cons.prems z by simp
    from Cons.IH [OF this] show ?thesis by (simp add: z keys_update)
  qed
qed

lemma keys_scrape_misc_info:
  "scrape_misc_info forms pg = Inr info \<Longrightarrow>
     set (keys info) = set (take (length (pokemon_ability_info pg)) forms)"
  unfolding scrape_misc_info_def
  by (drule keys_misc_info_loop) (simp add: snd_zip keys_def)

lemma getitem_key: "getitem d k = Inr v \<Longrightarrow> k \<in> set (keys d)"
  by (auto simp: getitem_def map_of_keys split: option.splits)

lemma assemble_missing:
  assumes "f \<in> set forms"
    and "f \<notin> set (keys images) \<or> f \<notin> set (keys descriptions) \<or> f \<notin> set (keys types) \<or>
         f \<notin> set (keys misc_info)"
  shows "\<exists>e. assemble forms images descriptions types misc_info acc = Inl e"
  using assms(1)
proof (induction forms arbitrary: acc)
  case Nil
  then show ?case by simp
next
  case (Cons form forms)
  show ?case
  proof (cases "getitem images form")
    case (Inl e)
    then show ?thesis by (simp add: then_do_def)
  next
    case i: (Inr image)
    show ?thesis
    proof (cases "getitem descriptions form")
      case (Inl e)
      then show ?thesis by (simp add: then_do_def i)
    next
      case d: (Inr ds)
      show ?thesis
      proof (cases "getitem types form")
        case (Inl e)
        then show ?thesis by (simp add: then_do_def i d)
      next
        case t: (Inr ts)
        show ?thesis
        proof (cases "getitem misc_info form")
          case (Inl e)
          then show ?thesis by (simp add: then_do_def i d t)
        next
          case m: (Inr info)
          have "form \<noteq> f"
            using assms(2) getitem_key [OF i] getitem_key [OF d] getitem_key [OF t] getitem_key [OF m]
            by auto
          then have "f \<in> set forms" using Cons.prems by simp
          from Cons.IH [OF this] show ?thesis
            by (simp add: then_do_def i d t m)
        qed
      qed
    qed
  qed
qed

lemma nth_not_in_take:
  assumes "distinct xs" and "i < length xs"
  shows "xs ! i \<notin> set (take i xs)"
proof
  assume "xs ! i \<in> set (take i xs)"
  then obtain j where j: "j < length (take i xs)" "take i xs ! j = xs ! i"
    by (auto simp: in_set_conv_nth)
  then have "j < i" "xs ! j = xs ! i" using assms(2) by simp_all
  then show False using assms by (simp add: nth_eq_iff_index_eq)
qed

lemma assemble_too_few:
  assumes "distinct forms" and "k < length forms"
    and "set (keys images) = set (take k forms) \<or> set (keys descriptions) = set (take k forms) \<or>
         set (keys types) = set (take k forms) \<or> set (keys misc_info) = set (take k forms)"
  shows "\<exists>e. assemble forms images descriptions types misc_info acc = Inl e"
proof -
  have "forms ! k \<in> set forms" using assms(2) by simp
  moreover have "forms ! k \<notin> set (take k forms)"
    using assms(1,2) by (rule nth_not_in_take)
  then have "forms ! k \<notin> set (keys images) \<or> forms ! k \<notin> set (keys descriptions) \<or>
      forms ! k \<notin> set (keys types) \<or> forms ! k \<notin> set (keys misc_info)"
    using assms(3) by auto
  ultimately show ?thesis by (rule assemble_missing)
qed

lemma scrape_pokemon_too_few:
  assumes "distinct (scrape_formes pg)"
    and "length (profile_images pg) < length (scrape_formes pg) \<or>
         length (version_descriptions pg) < length (scrape_formes pg) \<or>
         length (dtm_type pg) < length (scrape_formes pg) \<or>
         length (pokemon_ability_info pg) < length (scrape_formes pg)"
  shows "\<exists>e. scrape_pokemon py_int self_url pg = Inl e"
proof (cases "scrape_number py_int pg")
  case (Inl e)
  then show ?thesis by (simp add: scrape_pokemon_def then_do_def)
next
  case n: (Inr n)
  show ?thesis
  proof (cases "scrape_misc_info (scrape_formes pg) pg")
    case (Inl e)
    then show ?thesis by (simp add: scrape_pokemon_def then_do_def n)
  next
    case m: (Inr misc_info)
    note km = keys_scrape_misc_info [OF m]
    have "\<exists>e. assemble (scrape_formes pg) (scrape_images (scrape_formes pg) pg)
        (scrape_descriptions (scrape_formes pg) pg) (scrape_types (scrape_formes pg) pg)
        misc_info [] = Inl e"
      using assms(2)
    proof (elim disjE)
      assume "length (profile_images pg) < length (scrape_formes pg)"
      then show ?thesis
        by (rule assemble_too_few [OF assms(1)]) (simp add: keys_scrape_images)
    next
      assume "length (version_descriptions pg) < length (scrape_formes pg)"
      then show ?thesis
        by (rule assemble_too_few [OF assms(1)]) (simp add: keys_scrape_descriptions)
    next
      assume "length (dtm_type pg) < length (scrape_formes pg)"
      then show ?thesis
        by (rule assemble_too_few [OF assms(1)]) (simp add: keys_scrape_types)
    next
      assume "length (pokemon_ability_info pg) < length (scrape_formes pg)"
      then show ?thesis
        by (rule assemble_too_few [OF assms(1)]) (simp add: km)
    qed
    then show ?thesis
      by (auto simp: scrape_pokemon_def then_do_def n m Let_def)
  qed
qed

lemma scrape_pokemon_surplus:
  "scrape_pokemon py_int self_url (pg\<lparr>profile_images := take (length (scrape_formes pg)) (profile_images pg),
            version_descriptions := take (length (scrape_formes pg)) (version_descriptions pg),
            dtm_type := take (length (scrape_formes pg)) (dtm_type pg),
            pokemon_ability_info := take (length (scrape_formes pg)) (pokemon_ability_info pg)\<rparr>) = scrape_pokemon py_int self_url pg"
proof -
  define pg' where "pg' = (pg\<lparr>profile_images := take (length (scrape_formes pg)) (profile_images pg),
            version_descriptions := take (length (scrape_formes pg)) (version_descriptions pg),
            dtm_type := take (length (scrape_formes pg)) (dtm_type pg),
            pokemon_ability_info := take (length (scrape_formes pg)) (pokemon_ability_info pg)\<rparr>)"
  have s: "scrape_name pg' = scrape_name pg"
    by (simp add: pg'_def scrape_name_def)
  have ft: "formes_tag pg' = formes_tag pg"
    by (simp add: pg'_def)
  have f: "scrape_formes pg' = scrape_formes pg"
    by (simp only: scrape_formes_def s ft)
  have n: "scrape_number py_int pg' = scrape_number py_int pg"
    by (simp add: pg'_def scrape_number_def)
  have i: "scrape_images (scrape_formes pg) pg' = scrape_images (scrape_formes pg) pg"
    by (simp add: pg'_def scrape_images_def zip_take_length)
  have d: "scrape_descriptions (scrape_formes pg) pg' = scrape_descriptions (scrape_formes pg) pg"
    by (simp add: pg'_def scrape_descriptions_def zip_take_length)
  have t: "scrape_types (scrape_formes pg) pg' = scrape_types (scrape_formes pg) pg"
    by (simp add: pg'_def scrape_types_def zip_take_length)
  have m: "scrape_misc_info (scrape_formes pg) pg' = scrape_misc_info (scrape_formes pg) pg"
    by (simp add: pg'_def scrape_misc_info_def zip_take_length)
  have e: "scrape_evolutions pg' = scrape_evolutions pg"
    by (simp add: pg'_def scrape_evolutions_def)
  have "scrape_pokemon py_int self_url pg' = scrape_pokemon py_int self_url pg"
    unfolding scrape_pokemon_def f Let_def by (simp only: n i d t m e s)
  then show ?thesis by (simp only: pg'_def)
qed

lemma eevee_page:
  "scrape_pokemon (\<lambda>s. if s = ''133'' then Some 133 else None) ''https://www.pokemon.com/us/pokedex/eevee'' \<lparr>pagination_title = (''Eevee'', ''#133''), formes_tag = None,
      profile_images = [''133.png'', ''133_f2.png''],
      version_descriptions = [[''It can evolve.'', ''Its genes are unstable.'']],
      dtm_type = [[''Normal'']],
      pokemon_ability_info =
        [\<lparr>attribute_titles = [''Height'', ''Weight'', ''Gender'', ''Category'', ''Abilities''],
          attribute_values =
            [\<lparr>value_text = ''1 00'', value_icons = []\<rparr>,
             \<lparr>value_text = ''14.3 lbs'', value_icons = []\<rparr>,
             \<lparr>value_text = '' '', value_icons = [[''icon'', ''icon_male_symbol''], [''icon'', ''icon_female_symbol'']]\<rparr>,
             \<lparr>value_text = ''Evolution'', value_icons = []\<rparr>,
             \<lparr>value_text = ''Run Away'', value_icons = []\<rparr>,
             \<lparr>value_text = ''Adaptability'', value_icons = []\<rparr>]\<rparr>],
      evolution_profile = Some [(''first'', [''Eevee''])],
      pokemon_ability_info_detail = [(''Run Away'', ''Enables a sure getaway.'')],
      next_href = ''/us/pokedex/vaporeon''\<rparr> = Inr \<lparr>url = ''https://www.pokemon.com/us/pokedex/eevee'', name = ''Eevee'', number = 133,
        evolutions = [[(''first'', [''Eevee''])]],
        formes = [[(''form'', FStr ''Eevee''), (''image'', FStr ''133.png''),
                   (''descriptions'', FList [''It can evolve.'', ''Its genes are unstable.'']),
                   (''types'', FList [''Normal'']), (''height'', FStr ''1 00''),
                   (''weight'', FStr ''14.3 lbs''), (''gender'', FList [''Male'', ''Female'']),
                   (''category'', FStr ''Evolution''),
                   (''abilities'', FList [''Run Away'', ''Adaptability''])]]\<rparr>"
  by (simp add: scrape_pokemon_def scrape_number_def scrape_formes_def scrape_name_def
      scrape_images_def scrape_descriptions_def scrape_types_def scrape_misc_info_def
      scrape_form_info_def scrape_genders_def scrape_evolutions_def item_def then_do_def
      getitem_def dict_update_def strip_def space_newline_def lower_titles
      str_find_def startswith_def)

text \<open>
  C5 (as stated, refuted).  A page with one form and two profile images is assembled
  without an error: the second image is dropped.
\<close>

theorem surplus_entries_counterexample:
  "length (profile_images \<lparr>pagination_title = (''Eevee'', ''#133''), formes_tag = None,
      profile_images = [''133.png'', ''133_f2.png''],
      version_descriptions = [[''It can evolve.'', ''Its genes are unstable.'']],
      dtm_type = [[''Normal'']],
      pokemon_ability_info =
        [\<lparr>attribute_titles = [''Height'', ''Weight'', ''Gender'', ''Category'', ''Abilities''],
          attribute_values =
            [\<lparr>value_text = ''1 00'', value_icons = []\<rparr>,
             \<lparr>value_text = ''14.3 lbs'', value_icons = []\<rparr>,
             \<lparr>value_text = '' '', value_icons = [[''icon'', ''icon_male_symbol''], [''icon'', ''icon_female_symbol'']]\<rparr>,
             \<lparr>value_text = ''Evolution'', value_icons = []\<rparr>,
             \<lparr>value_text = ''Run Away'', value_icons = []\<rparr>,
             \<lparr>value_text = ''Adaptability'', value_icons = []\<rparr>]\<rparr>],
      evolution_profile = Some [(''first'', [''Eevee''])],
      pokemon_ability_info_detail = [(''Run Away'', ''Enables a sure getaway.'')],
      next_href = ''/us/pokedex/vaporeon''\<rparr>) > length (scrape_formes \<lparr>pagination_title = (''Eevee'', ''#133''), formes_tag = None,
      profile_images = [''133.png'', ''133_f2.png''],
      version_descriptions = [[''It can evolve.'', ''Its genes are unstable.'']],
      dtm_type = [[''Normal'']],
      pokemon_ability_info =
        [\<lparr>attribute_titles = [''Height'', ''Weight'', ''Gender'', ''Category'', ''Abilities''],
          attribute_values =
            [\<lparr>value_text = ''1 00'', value_icons = []\<rparr>,
             \<lparr>value_text = ''14.3 lbs'', value_icons = []\<rparr>,
             \<lparr>value_text = '' '', value_icons = [[''icon'', ''icon_male_symbol''], [''icon'', ''icon_female_symbol'']]\<rparr>,
             \<lparr>value_text = ''Evolution'', value_icons = []\<rparr>,
             \<lparr>value_text = ''Run Away'', value_icons = []\<rparr>,
             \<lparr>value_text = ''Adaptability'', value_icons = []\<rparr>]\<rparr>],
      evolution_profile = Some [(''first'', [''Eevee''])],
      pokemon_ability_info_detail = [(''Run Away'', ''Enables a sure getaway.'')],
      next_href = ''/us/pokedex/vaporeon''\<rparr>) \<and>
   scrape_pokemon (\<lambda>s. if s = ''133'' then Some 133 else None) ''https://www.pokemon.com/us/pokedex/eevee'' \<lparr>pagination_title = (''Eevee'', ''#133''), formes_tag = None,
      profile_images = [''133.png'', ''133_f2.png''],
      version_descriptions = [[''It can evolve.'', ''Its genes are unstable.'']],
      dtm_type = [[''Normal'']],
      pokemon_ability_info =
        [\<lparr>attribute_titles = [''Height'', ''Weight'', ''Gender'', ''Category'', ''Abilities''],
          attribute_values =
            [\<lparr>value_text = ''1 00'', value_icons = []\<rparr>,
             \<lparr>value_text = ''14.3 lbs'', value_icons = []\<rparr>,
             \<lparr>value_text = '' '', value_icons = [[''icon'', ''icon_male_symbol''], [''icon'', ''icon_female_symbol'']]\<rparr>,
             \<lparr>value_text = ''Evolution'', value_icons = []\<rparr>,
             \<lparr>value_text = ''Run Away'', value_icons = []\<rparr>,
             \<lparr>value_text = ''Adaptability'', value_icons = []\<rparr>]\<rparr>],
      evolution_profile = Some [(''first'', [''Eevee''])],
      pokemon_ability_info_detail = [(''Run Away'', ''Enables a sure getaway.'')],
      next_href = ''/us/pokedex/vaporeon''\<rparr> = Inr \<lparr>url = ''https://www.pokemon.com/us/pokedex/eevee'', name = ''Eevee'', number = 133,
        evolutions = [[(''first'', [''Eevee''])]],
        formes = [[(''form'', FStr ''Eevee''), (''image'', FStr ''133.png''),
                   (''descriptions'', FList [''It can evolve.'', ''Its genes are unstable.'']),
                   (''types'', FList [''Normal'']), (''height'', FStr ''1 00''),
                   (''weight'', FStr ''14.3 lbs''), (''gender'', FList [''Male'', ''Female'']),
                   (''category'', FStr ''Evolution''),
                   (''abilities'', FList [''Run Away'', ''Adaptability''])]]\<rparr>"
  by (simp add: eevee_page) (simp add: scrape_formes_def)

lemma getitem_in_keys: "k \<in> set (keys d) \<Longrightarrow> \<exists>v. getitem d k = Inr v"
  by (auto simp: getitem_def map_of_keys split: option.splits)

lemma assemble_first_missing:
  assumes "set pre \<subseteq> set (keys images)" and "set pre \<subseteq> set (keys descriptions)"
    and "set pre \<subseteq> set (keys types)" and "set pre \<subseteq> set (keys misc_info)"
    and "f \<notin> set (keys images) \<or> f \<notin> set (keys descriptions) \<or> f \<notin> set (keys types) \<or>
         f \<notin> set (keys misc_info)"
  shows "assemble (pre @ f # post) images descriptions types misc_info acc = Inl (KeyError f)"
  using assms(1-4)
proof (induction pre arbitrary: acc)
  case Nil
  have i: "getitem images f = Inl (KeyError f) \<or> (\<exists>v. getitem images f = Inr v)"
    using getitem_None [of f images] getitem_in_keys [of f images] by blast
  have d: "getitem descriptions f = Inl (KeyError f) \<or> (\<exists>v. getitem descriptions f = Inr v)"
    using getitem_None [of f descriptions] getitem_in_keys [of f descriptions] by blast
  have t: "getitem types f = Inl (KeyError f) \<or> (\<exists>v. getitem types f = Inr v)"
    using getitem_None [of f types] getitem_in_keys [of f types] by blast
  have m: "getitem misc_info f = Inl (KeyError f)" if "f \<in> set (keys images)"
    "f \<in> set (keys descriptions)" "f \<in> set (keys types)"
    using assms(5) that getitem_None [of f misc_info] by blast
  show ?case
  proof (cases "getitem images f")
    case (Inl e)
    then show ?thesis using i by (simp add: then_do_def)
  next
    case iv: (Inr image)
    show ?thesis
    proof (cases "getitem descriptions f")
      case (Inl e)
      then show ?thesis using d by (simp add: then_do_def iv)
    next
      case dv: (Inr ds)
      show ?thesis
      proof (cases "getitem types f")
        case (Inl e)
        then show ?thesis using t by (simp add: then_do_def iv dv)
      next
        case tv: (Inr ts)
        have "getitem misc_info f = Inl (KeyError f)"
          using m getitem_key [OF iv] getitem_key [OF dv] getitem_key [OF tv] by blast
        then show ?thesis by (simp add: then_do_def iv dv tv)
      qed
    qed
  qed
next
  case (Cons p pre)
  obtain i where i: "getitem images p = Inr i"
    using Cons.prems(1) getitem_in_keys [of p images] by auto
  obtain d where d: "getitem descriptions p = Inr d"
    using Cons.prems(2) getitem_in_keys [of p descriptions] by auto
  obtain t where t: "getitem types p = Inr t"
    using Cons.prems(3) getitem_in_keys [of p types] by auto
  obtain m where m: "getitem misc_info p = Inr m"
    using Cons.prems(4) getitem_in_keys [of p misc_info] by auto
  show ?case
    using Cons.IH Cons.prems by (simp add: then_do_def i d t m)
qed

lemma scrape_pokemon_first_missing:
  assumes dist: "distinct (scrape_formes pg)"
    and n: "scrape_number py_int pg = Inr n"
    and mi: "scrape_misc_info (scrape_formes pg) pg = Inr misc_info"
    and m: "m = min (min (length (profile_images pg)) (length (version_descriptions pg)))
             (min (length (dtm_type pg)) (length (pokemon_ability_info pg)))"
    and lt: "m < length (scrape_formes pg)"
  shows "scrape_pokemon py_int self_url pg = Inl (KeyError (scrape_formes pg ! m))"
proof -
  let ?forms = "scrape_formes pg"
  have split: "?forms = take m ?forms @ ?forms ! m # drop (Suc m) ?forms"
    using lt by (rule id_take_nth_drop)
  have sub: "set (take m ?forms) \<subseteq> set (take k ?forms)" if "m \<le> k" for k
    using that by (rule set_take_subset_set_take)
  have le: "m \<le> length (profile_images pg)" "m \<le> length (version_descriptions pg)"
    "m \<le> length (dtm_type pg)" "m \<le> length (pokemon_ability_info pg)"
    using m by simp_all
  have out: "?forms ! m \<notin> set (take m ?forms)"
    using dist lt by (rule nth_not_in_take)
  have eq: "m = length (profile_images pg) \<or> m = length (version_descriptions pg) \<or>
      m = length (dtm_type pg) \<or> m = length (pokemon_ability_info pg)"
    using m by (auto simp: min_def)
  have miss: "?forms ! m \<notin> set (keys (scrape_images ?forms pg)) \<or>
      ?forms ! m \<notin> set (keys (scrape_descriptions ?forms pg)) \<or>
      ?forms ! m \<notin> set (keys (scrape_types ?forms pg)) \<or>
      ?forms ! m \<notin> set (keys misc_info)"
    using eq out
    by (auto simp: keys_scrape_images keys_scrape_descriptions keys_scrape_types
        keys_scrape_misc_info [OF mi])
  have "assemble (take m ?forms @ ?forms ! m # drop (Suc m) ?forms) (scrape_images ?forms pg)
      (scrape_descriptions ?forms pg) (scrape_types ?forms pg) misc_info [] =
      Inl (KeyError (?forms ! m))"
    using miss
    by (intro assemble_first_missing)
      (simp_all add: keys_scrape_images keys_scrape_descriptions keys_scrape_types
        keys_scrape_misc_info [OF mi] sub le)
  then have "assemble ?forms (scrape_images ?forms pg)
      (scrape_descriptions ?forms pg) (scrape_types ?forms pg) misc_info [] =
      Inl (KeyError (?forms ! m))"
    using split by simp
  then show ?thesis
    by (simp add: scrape_pokemon_def then_do_def n mi Let_def)
qed

text \<open>
  C5 (amended).  When the form labels are distinct and one of the four form-keyed
  extractors (images, descriptions, types, misc info) finds fewer entries than there
  are labels, \<open>__scrape_pokemon\<close> raises; when the number and the misc info are
  themselves extracted without error, what it raises is the \<open>KeyError\<close> of the first
  label left without an entry, the label at the position of the shortest of the four
  lists.  Entries beyond the number of labels are dropped by the pairing: the result is
  that of the page without them.
\<close>

theorem form_count_mismatch:
  "(distinct (scrape_formes pg) \<and>
    (length (profile_images pg) < length (scrape_formes pg) \<or>
     length (version_descriptions pg) < length (scrape_formes pg) \<or>
     length (dtm_type pg) < length (scrape_formes pg) \<or>
     length (pokemon_ability_info pg) < length (scrape_formes pg)) \<longrightarrow>
      (\<exists>e. scrape_pokemon py_int self_url pg = Inl e)) \<and>
   (distinct (scrape_formes pg) \<and> scrape_number py_int pg = Inr n \<and>
    scrape_misc_info (scrape_formes pg) pg = Inr misc_info \<and>
    m = min (min (length (profile_images pg)) (length (version_descriptions pg)))
             (min (length (dtm_type pg)) (length (pokemon_ability_info pg))) \<and>
    m < length (scrape_formes pg) \<longrightarrow>
      scrape_pokemon py_int self_url pg = Inl (KeyError (scrape_formes pg ! m))) \<and>
   scrape_pokemon py_int self_url (pg\<lparr>profile_images := take (length (scrape_formes pg)) (profile_images pg),
            version_descriptions := take (length (scrape_formes pg)) (version_descriptions pg),
            dtm_type := take (length (scrape_formes pg)) (dtm_type pg),
            pokemon_ability_info := take (length (scrape_formes pg)) (pokemon_ability_info pg)\<rparr>) = scrape_pokemon py_int self_url pg"
proof -
  have a: "distinct (scrape_formes pg) \<and>
    (length (profile_images pg) < length (scrape_formes pg) \<or>
     length (version_descriptions pg) < length (scrape_formes pg) \<or>
     length (dtm_type pg) < length (scrape_formes pg) \<or>
     length (pokemon_ability_info pg) < length (scrape_formes pg)) \<longrightarrow>
      (\<exists>e. scrape_pokemon py_int self_url pg = Inl e)"
    using scrape_pokemon_too_few [of pg py_int self_url] by blast
  have b: "distinct (scrape_formes pg) \<and> scrape_number py_int pg = Inr n \<and>
    scrape_misc_info (scrape_formes pg) pg = Inr misc_info \<and>
    m = min (min (length (profile_images pg)) (length (version_descriptions pg)))
             (min (length (dtm_type pg)) (length (pokemon_ability_info pg))) \<and>
    m < length (scrape_formes pg) \<longrightarrow>
      scrape_pokemon py_int self_url pg = Inl (KeyError (scrape_formes pg ! m))"
    using scrape_pokemon_first_missing [of pg py_int n misc_info m self_url] by blast
  show ?thesis
    by (intro conjI a b scrape_pokemon_surplus)
qed

theorem form_count_mismatch_witness:
  "scrape_pokemon (\<lambda>s. if s = ''133'' then Some 133 else None) ''https://www.pokemon.com/us/pokedex/eevee'' \<lparr>pagination_title = (''Eevee'', ''#133''), formes_tag = Some [''Normal Forme'', ''Attack Forme''],
      profile_images = [''386.png''],
      version_descriptions = [[''It can evolve.'', ''Its genes are unstable.'']],
      dtm_type = [[''Normal'']],
      pokemon_ability_info =
        [\<lparr>attribute_titles = [''Height'', ''Weight'', ''Gender'', ''Category'', ''Abilities''],
          attribute_values =
            [\<lparr>value_text = ''1 00'', value_icons = []\<rparr>,
             \<lparr>value_text = ''14.3 lbs'', value_icons = []\<rparr>,
             \<lparr>value_text = '' '', value_icons = [[''icon'', ''icon_male_symbol''], [''icon'', ''icon_female_symbol'']]\<rparr>,
             \<lparr>value_text = ''Evolution'', value_icons = []\<rparr>,
             \<lparr>value_text = ''Run Away'', value_icons = []\<rparr>,
             \<lparr>value_text = ''Adaptability'', value_icons = []\<rparr>]\<rparr>],
      evolution_profile = Some [(''first'', [''Eevee''])],
      pokemon_ability_info_detail = [(''Run Away'', ''Enables a sure getaway.'')],
      next_href = ''/us/pokedex/vaporeon''\<rparr> = Inl (KeyError ''Attack Forme'') \<and>
   scrape_pokemon (\<lambda>s. if s = ''133'' then Some 133 else None) ''https://www.pokemon.com/us/pokedex/eevee'' \<lparr>pagination_title = (''Eevee'', ''#133''), formes_tag = None,
      profile_images = [''133.png''],
      version_descriptions = [[''It can evolve.'', ''Its genes are unstable.'']],
      dtm_type = [[''Normal'']],
      pokemon_ability_info =
        [\<lparr>attribute_titles = [''Height'', ''Weight'', ''Gender'', ''Category'', ''Abilities''],
          attribute_values =
            [\<lparr>value_text = ''1 00'', value_icons = []\<rparr>,
             \<lparr>value_text = ''14.3 lbs'', value_icons = []\<rparr>,
             \<lparr>value_text = '' '', value_icons = [[''icon'', ''icon_male_symbol''], [''icon'', ''icon_female_symbol'']]\<rparr>,
             \<lparr>value_text = ''Evolution'', value_icons = []\<rparr>,
             \<lparr>value_text = ''Run Away'', value_icons = []\<rparr>,
             \<lparr>value_text = ''Adaptability'', value_icons = []\<rparr>]\<rparr>],
      evolution_profile = Some [(''first'', [''Eevee''])],
      pokemon_ability_info_detail = [(''Run Away'', ''Enables a sure getaway.'')],
      next_href = ''/us/pokedex/vaporeon''\<rparr> = Inr \<lparr>url = ''https://www.pokemon.com/us/pokedex/eevee'', name = ''Eevee'', number = 133,
        evolutions = [[(''first'', [''Eevee''])]],
        formes = [[(''form'', FStr ''Eevee''), (''image'', FStr ''133.png''),
                   (''descriptions'', FList [''It can evolve.'', ''Its genes are unstable.'']),
                   (''types'', FList [''Normal'']), (''height'', FStr ''1 00''),
                   (''weight'', FStr ''14.3 lbs''), (''gender'', FList [''Male'', ''Female'']),
                   (''category'', FStr ''Evolution''),
                   (''abilities'', FList [''Run Away'', ''Adaptability''])]]\<rparr>"
proof -
  have mi: "scrape_misc_info [''Normal Forme'', ''Attack Forme''] \<lparr>pagination_title = (''Eevee'', ''#133''), formes_tag = Some [''Normal Forme'', ''Attack Forme''],
      profile_images = [''386.png''],
      version_descriptions = [[''It can evolve.'', ''Its genes are unstable.'']],
      dtm_type = [[''Normal'']],
      pokemon_ability_info =
        [\<lparr>attribute_titles = [''Height'', ''Weight'', ''Gender'', ''Category'', ''Abilities''],
          attribute_values =
            [\<lparr>value_text = ''1 00'', value_icons = []\<rparr>,
             \<lparr>value_text = ''14.3 lbs'', value_icons = []\<rparr>,
             \<lparr>value_text = '' '', value_icons = [[''icon'', ''icon_male_symbol''], [''icon'', ''icon_female_symbol'']]\<rparr>,
             \<lparr>value_text = ''Evolution'', value_icons = []\<rparr>,
             \<lparr>value_text = ''Run Away'', value_icons = []\<rparr>,
             \<lparr>value_text = ''Adaptability'', value_icons = []\<rparr>]\<rparr>],
      evolution_profile = Some [(''first'', [''Eevee''])],
      pokemon_ability_info_detail = [(''Run Away'', ''Enables a sure getaway.'')],
      next_href = ''/us/pokedex/vaporeon''\<rparr> = Inr [(''Normal Forme'',
          [(''height'', FStr ''1 00''), (''weight'', FStr ''14.3 lbs''),
           (''gender'', FList [''Male'', ''Female'']), (''category'', FStr ''Evolution''),
           (''abilities'', FList [''Run Away'', ''Adaptability''])])]"
    by (simp add: scrape_misc_info_def scrape_form_info_def scrape_genders_def item_def
        then_do_def strip_def space_newline_def lower_titles str_find_def startswith_def)
  have "scrape_pokemon (\<lambda>s. if s = ''133'' then Some 133 else None) ''https://www.pokemon.com/us/pokedex/eevee'' \<lparr>pagination_title = (''Eevee'', ''#133''), formes_tag = Some [''Normal Forme'', ''Attack Forme''],
      profile_images = [''386.png''],
      version_descriptions = [[''It can evolve.'', ''Its genes are unstable.'']],
      dtm_type = [[''Normal'']],
      pokemon_ability_info =
        [\<lparr>attribute_titles = [''Height'', ''Weight'', ''Gender'', ''Category'', ''Abilities''],
          attribute_values =
            [\<lparr>value_text = ''1 00'', value_icons = []\<rparr>,
             \<lparr>value_text = ''14.3 lbs'', value_icons = []\<rparr>,
             \<lparr>value_text = '' '', value_icons = [[''icon'', ''icon_male_symbol''], [''icon'', ''icon_female_symbol'']]\<rparr>,
             \<lparr>value_text = ''Evolution'', value_icons = []\<rparr>,
             \<lparr>value_text = ''Run Away'', value_icons = []\<rparr>,
             \<lparr>value_text = ''Adaptability'', value_icons = []\<rparr>]\<rparr>],
      evolution_profile = Some [(''first'', [''Eevee''])],
      pokemon_ability_info_detail = [(''Run Away'', ''Enables a sure getaway.'')],
      next_href = ''/us/pokedex/vaporeon''\<rparr> = Inl (KeyError ''Attack Forme'')"
    using form_count_mismatch [of "\<lparr>pagination_title = (''Eevee'', ''#133''), formes_tag = Some [''Normal Forme'', ''Attack Forme''],
      profile_images = [''386.png''],
      version_descriptions = [[''It can evolve.'', ''Its genes are unstable.'']],
      dtm_type = [[''Normal'']],
      pokemon_ability_info =
        [\<lparr>attribute_titles = [''Height'', ''Weight'', ''Gender'', ''Category'', ''Abilities''],
          attribute_values =
            [\<lparr>value_text = ''1 00'', value_icons = []\<rparr>,
             \<lparr>value_text = ''14.3 lbs'', value_icons = []\<rparr>,
             \<lparr>value_text = '' '', value_icons = [[''icon'', ''icon_male_symbol''], [''icon'', ''icon_female_symbol'']]\<rparr>,
             \<lparr>value_text = ''Evolution'', value_icons = []\<rparr>,
             \<lparr>value_text = ''Run Away'', value_icons = []\<rparr>,
             \<lparr>value_text = ''Adaptability'', value_icons = []\<rparr>]\<rparr>],
      evolution_profile = Some [(''first'', [''Eevee''])],
      pokemon_ability_info_detail = [(''Run Away'', ''Enables a sure getaway.'')],
      next_href = ''/us/pokedex/vaporeon''\<rparr>" "(\<lambda>s. if s = ''133'' then Some 133 else None)" "''https://www.pokemon.com/us/pokedex/eevee''" 133 "[(''Normal Forme'',
          [(''height'', FStr ''1 00''), (''weight'', FStr ''14.3 lbs''),
           (''gender'', FList [''Male'', ''Female'']), (''category'', FStr ''Evolution''),
           (''abilities'', FList [''Run Away'', ''Adaptability''])])]" 1] mi
    by (simp add: scrape_formes_def scrape_number_def strip_def space_newline_def)
  moreover have "scrape_pokemon (\<lambda>s. if s = ''133'' then Some 133 else None) ''https://www.pokemon.com/us/pokedex/eevee'' \<lparr>pagination_title = (''Eevee'', ''#133''), formes_tag = None,
      profile_images = [''133.png''],
      version_descriptions = [[''It can evolve.'', ''Its genes are unstable.'']],
      dtm_type = [[''Normal'']],
      pokemon_ability_info =
        [\<lparr>attribute_titles = [''Height'', ''Weight'', ''Gender'', ''Category'', ''Abilities''],
          attribute_values =
            [\<lparr>value_text = ''1 00'', value_icons = []\<rparr>,
             \<lparr>value_text = ''14.3 lbs'', value_icons = []\<rparr>,
             \<lparr>value_text = '' '', value_icons = [[''icon'', ''icon_male_symbol''], [''icon'', ''icon_female_symbol'']]\<rparr>,
             \<lparr>value_text = ''Evolution'', value_icons = []\<rparr>,
             \<lparr>value_text = ''Run Away'', value_icons = []\<rparr>,
             \<lparr>value_text = ''Adaptability'', value_icons = []\<rparr>]\<rparr>],
      evolution_profile = Some [(''first'', [''Eevee''])],
      pokemon_ability_info_detail = [(''Run Away'', ''Enables a sure getaway.'')],
      next_href = ''/us/pokedex/vaporeon''\<rparr> = Inr \<lparr>url = ''https://www.pokemon.com/us/pokedex/eevee'', name = ''Eevee'', number = 133,
        evolutions = [[(''first'', [''Eevee''])]],
        formes = [[(''form'', FStr ''Eevee''), (''image'', FStr ''133.png''),
                   (''descriptions'', FList [''It can evolve.'', ''Its genes are unstable.'']),
                   (''types'', FList [''Normal'']), (''height'', FStr ''1 00''),
                   (''weight'', FStr ''14.3 lbs''), (''gender'', FList [''Male'', ''Female'']),
                   (''category'', FStr ''Evolution''),
                   (''abilities'', FList [''Run Away'', ''Adaptability''])]]\<rparr>"
    using form_count_mismatch [of "\<lparr>pagination_title = (''Eevee'', ''#133''), formes_tag = None,
      profile_images = [''133.png'', ''133_f2.png''],
      version_descriptions = [[''It can evolve.'', ''Its genes are unstable.'']],
      dtm_type = [[''Normal'']],
      pokemon_ability_info =
        [\<lparr>attribute_titles = [''Height'', ''Weight'', ''Gender'', ''Category'', ''Abilities''],
          attribute_values =
            [\<lparr>value_text = ''1 00'', value_icons = []\<rparr>,
             \<lparr>value_text = ''14.3 lbs'', value_icons = []\<rparr>,
             \<lparr>value_text = '' '', value_icons = [[''icon'', ''icon_male_symbol''], [''icon'', ''icon_female_symbol'']]\<rparr>,
             \<lparr>value_text = ''Evolution'', value_icons = []\<rparr>,
             \<lparr>value_text = ''Run Away'', value_icons = []\<rparr>,
             \<lparr>value_text = ''Adaptability'', value_icons = []\<rparr>]\<rparr>],
      evolution_profile = Some [(''first'', [''Eevee''])],
      pokemon_ability_info_detail = [(''Run Away'', ''Enables a sure getaway.'')],
      next_href = ''/us/pokedex/vaporeon''\<rparr>" "(\<lambda>s. if s = ''133'' then Some 133 else None)" "''https://www.pokemon.com/us/pokedex/eevee''"]
    by (simp add: scrape_formes_def eevee_page)
  ultimately show ?thesis by (rule conjI)
qed

end
